theory Spec2Isabelle
  imports Complex_Main "HOL-Library.AList"
begin

section \<open>JavaScript values and objects\<close>

text \<open>
  The values that reach the Weather class: \<open>undefined\<close>, \<open>null\<close>, booleans, numbers,
  strings and objects. A number is a rational, \<open>NaN\<close> or an infinity (the code only asks
  whether a number is zero, falsy, or an array index). An object value (a plain object or an
  array used as a field value) is given by its own enumerable properties in insertion order.
\<close>

datatype jsnum = Finite rat | NaN | PosInf | NegInf

datatype jsval =
    JUndefined
  | JNull
  | JBool bool
  | JNum jsnum
  | JStr string
  | JObj "(string \<times> jsval) list"

type_synonym props = "(string \<times> jsval) list"

text \<open>
  What the code throws. \<open>InvalidIdentifierType\<close> is the \<open>TypeError\<close> thrown by the
  \<open>else\<close> branch of an identifier dispatch (\<open>Invalid input datetime value\<close>,
  \<open>Invalid input day value\<close>); \<open>InvalidData\<close> is the \<open>TypeError\<close> of the data check of
  \<open>setItemByDatetimeVal\<close> and \<open>updateItemByDatetimeVal\<close>; \<open>NativeTypeError\<close> is the
  \<open>TypeError\<close> the runtime raises when a property of \<open>null\<close> or \<open>undefined\<close> is read or
  written, or when \<open>undefined\<close> is iterated; \<open>InvalidFormat\<close> and \<open>InvalidType\<close> are the
  \<open>Error\<close> and the \<open>TypeError\<close> of \<open>validateParamDate\<close>.
\<close>

datatype error = InvalidIdentifierType | InvalidData | NativeTypeError | InvalidFormat | InvalidType

fun typeof :: "jsval \<Rightarrow> string" where
  "typeof JUndefined = ''undefined''"
| "typeof JNull = ''object''"
| "typeof (JBool b) = ''boolean''"
| "typeof (JNum n) = ''number''"
| "typeof (JStr s) = ''string''"
| "typeof (JObj ps) = ''object''"

text \<open>Truthiness, as used by \<open>||\<close>, \<open>&&\<close>, \<open>!\<close> and \<open>if\<close>.\<close>

fun truthy :: "jsval \<Rightarrow> bool" where
  "truthy JUndefined = False"
| "truthy JNull = False"
| "truthy (JBool b) = b"
| "truthy (JNum n) = (n \<noteq> NaN \<and> n \<noteq> Finite 0)"
| "truthy (JStr s) = (s \<noteq> [])"
| "truthy (JObj ps) = True"

definition js_or :: "jsval \<Rightarrow> jsval \<Rightarrow> jsval" where
  "js_or a b = (if truthy a then a else b)"

text \<open>\<open>o.k\<close>: a missing property reads as \<open>undefined\<close>.\<close>

definition get_prop :: "props \<Rightarrow> string \<Rightarrow> jsval" where
  "get_prop ps k = (case map_of ps k of None \<Rightarrow> JUndefined | Some v \<Rightarrow> v)"

text \<open>\<open>o.k = v\<close>: an existing key keeps its place, a new key goes last.\<close>

definition put :: "props \<Rightarrow> string \<Rightarrow> jsval \<Rightarrow> props" where
  "put ps k v = AList.update k v ps"

text \<open>
  \<open>Object.assign(target, source)\<close>: for every own key of the source, in order, the
  source's value of that key is written to the target.
\<close>

definition assign :: "props \<Rightarrow> props \<Rightarrow> props" where
  "assign target source = foldl (\<lambda>t k. put t k (get_prop source k)) target (map fst source)"

text \<open>\<open>x?.k\<close> on the result of \<open>find\<close> or of an index read (\<open>None\<close> is \<open>undefined\<close>).\<close>

definition opt_chain :: "props option \<Rightarrow> string \<Rightarrow> jsval" where
  "opt_chain x k = (case x of None \<Rightarrow> JUndefined | Some ps \<Rightarrow> get_prop ps k)"

text \<open>
  \<open>src[n]\<close> for a number \<open>n\<close>: an element is read only when \<open>n\<close> is a non-negative integer
  below the length; any other number names a property an array does not have.
\<close>

fun index_of :: "jsnum \<Rightarrow> nat option" where
  "index_of (Finite q) = (if 0 \<le> q \<and> q = of_int \<lfloor>q\<rfloor> then Some (nat \<lfloor>q\<rfloor>) else None)"
| "index_of NaN = None"
| "index_of PosInf = None"
| "index_of NegInf = None"

definition elem_index :: "'a list \<Rightarrow> jsnum \<Rightarrow> nat option" where
  "elem_index xs n = (case index_of n of None \<Rightarrow> None | Some i \<Rightarrow> if i < length xs then Some i else None)"

definition elem_at :: "'a list \<Rightarrow> jsnum \<Rightarrow> 'a option" where
  "elem_at xs n = map_option (\<lambda>i. xs ! i) (elem_index xs n)"

text \<open>
  A loop \<open>for (item of src) { if (P item) { mutate item; break; } }\<close>: the first element
  that satisfies \<open>P\<close> is changed, the rest of the sequence is not visited.
\<close>

fun update_first :: "('a \<Rightarrow> bool) \<Rightarrow> ('a \<Rightarrow> 'a) \<Rightarrow> 'a list \<Rightarrow> 'a list" where
  "update_first P f [] = []"
| "update_first P f (x # xs) = (if P x then f x # xs else x # update_first P f xs)"

section \<open>The data model\<close>

text \<open>
  A day record has its own properties and an \<open>hours\<close> sequence of hour records, each an
  object; the document has top-level properties and a \<open>days\<close> sequence. \<open>None\<close> stands for
  a sequence that is \<open>undefined\<close>: the document is \<open>{}\<close> after construction and after
  \<open>clearWeatherData\<close>, and a response may carry days without hours. The types fix the
  shape of a weather document: \<open>days\<close> and \<open>hours\<close>, when present, are arrays, and every
  element of them is an object (so an element that is found is truthy). The property
  \<open>hours\<close> of a day is kept apart from its other properties; no accessor of the field
  catalog reads or writes a property of that name.
\<close>

record day =
  dprops :: props
  hours :: "props list option"

record document =
  wprops :: props
  days :: "day list option"

section \<open>The static item functions\<close>

text \<open>
  \<open>filterItemByDatetimeVal(src, datetimeVal)\<close>. The same function resolves a day in
  \<open>days\<close> and an hour in a day's \<open>hours\<close>; \<open>pr\<close> gives the properties of an element.
  \<open>Inr None\<close> is the returned \<open>null\<close>.
\<close>

definition filterItemByDatetimeVal ::
  "('a \<Rightarrow> props) \<Rightarrow> 'a list option \<Rightarrow> jsval \<Rightarrow> error + 'a option" where
  "filterItemByDatetimeVal pr src datetimeVal =
     (case datetimeVal of
        JStr s \<Rightarrow>
          (case src of
             None \<Rightarrow> Inl NativeTypeError
           | Some xs \<Rightarrow> Inr (find (\<lambda>item. get_prop (pr item) ''datetime'' = JStr s) xs))
      | JNum n \<Rightarrow>
          (case src of
             None \<Rightarrow> Inl NativeTypeError
           | Some xs \<Rightarrow> Inr (elem_at xs n))
      | _ \<Rightarrow> Inl InvalidIdentifierType)"

text \<open>
  \<open>setItemByDatetimeVal(src, datetimeVal, data)\<close> and
  \<open>updateItemByDatetimeVal(src, datetimeVal, data)\<close> return nothing and mutate their
  arguments; the model returns what was thrown (if anything), the sequence after the call
  and the \<open>data\<close> argument after the call. The \<open>data\<close> object is taken not to be an
  element of \<open>src\<close>.
\<close>

fun props_of :: "jsval \<Rightarrow> props" where
  "props_of (JObj ps) = ps"
| "props_of v = []"

definition setItemByDatetimeVal ::
  "props list option \<Rightarrow> jsval \<Rightarrow> jsval \<Rightarrow> error option \<times> props list option \<times> jsval" where
  "setItemByDatetimeVal src datetimeVal data =
     (if typeof data \<noteq> ''object'' \<or> data = JNull then (Some InvalidData, src, data)
      else
        (case datetimeVal of
           JStr s \<Rightarrow>
             (case src of
                None \<Rightarrow> (Some NativeTypeError, src, data)
              | Some xs \<Rightarrow>
                  (None,
                   Some (update_first (\<lambda>item. get_prop item ''datetime'' = JStr s)
                           (\<lambda>item. assign (assign item (props_of data)) [(''datetime'', JStr s)]) xs),
                   data))
         | JNum n \<Rightarrow>
             (case src of
                None \<Rightarrow> (Some NativeTypeError, src, data)
              | Some xs \<Rightarrow>
                  (case elem_index xs n of
                     None \<Rightarrow> (None, src, data)
                   | Some i \<Rightarrow>
                       (let data' = put (props_of data) ''datetime'' (get_prop (xs ! i) ''datetime'')
                        in (None, Some (xs[i := data']), JObj data'))))
         | _ \<Rightarrow> (Some InvalidIdentifierType, src, data)))"

definition updateItemByDatetimeVal ::
  "props list option \<Rightarrow> jsval \<Rightarrow> jsval \<Rightarrow> error option \<times> props list option \<times> jsval" where
  "updateItemByDatetimeVal src datetimeVal data =
     (if typeof data \<noteq> ''object'' \<or> data = JNull then (Some InvalidData, src, data)
      else
        (case datetimeVal of
           JStr s \<Rightarrow>
             (case src of
                None \<Rightarrow> (Some NativeTypeError, src, data)
              | Some xs \<Rightarrow>
                  (None,
                   Some (update_first (\<lambda>item. get_prop item ''datetime'' = JStr s)
                           (\<lambda>item. put (assign item (props_of data)) ''datetime'' (JStr s)) xs),
                   data))
         | JNum n \<Rightarrow>
             (case src of
                None \<Rightarrow> (Some NativeTypeError, src, data)
              | Some xs \<Rightarrow>
                  (case elem_index xs n of
                     None \<Rightarrow> (None, src, data)
                   | Some i \<Rightarrow>
                       (let data' = put (props_of data) ''datetime'' (get_prop (xs ! i) ''datetime'')
                        in (None, Some (xs[i := assign (xs ! i) data']), JObj data'))))
         | _ \<Rightarrow> (Some InvalidIdentifierType, src, data)))"


section \<open>The Weather store\<close>

text \<open>
  The class keeps one document in \<open>#weatherData\<close>. A get operation takes the document and
  returns a value or what it throws; a set operation returns what it throws (if anything)
  together with the document after the call.
\<close>

text \<open>\<open>try { ... } catch (error) { return null; }\<close>\<close>

definition catch_null :: "error + jsval \<Rightarrow> error + jsval" where
  "catch_null r = (case r of Inl e \<Rightarrow> Inr JNull | Inr v \<Rightarrow> Inr v)"

text \<open>The value \<open>null\<close> or the object that \<open>filterItemByDatetimeVal\<close> returned.\<close>

definition item_val :: "props option \<Rightarrow> jsval" where
  "item_val x = (case x of None \<Rightarrow> JNull | Some ps \<Rightarrow> JObj ps)"

text \<open>
  A write through the reference that \<open>filterItemByDatetimeVal(src, datetimeVal)\<close> returned:
  the sequence in which the resolved element (the first match of a string, the element at
  a numeric index) has been changed by \<open>upd\<close>.
\<close>

definition write_through :: "('a \<Rightarrow> props) \<Rightarrow> 'a list \<Rightarrow> jsval \<Rightarrow> ('a \<Rightarrow> 'a) \<Rightarrow> 'a list" where
  "write_through pr xs datetimeVal upd =
     (case datetimeVal of
        JStr s \<Rightarrow> update_first (\<lambda>item. get_prop (pr item) ''datetime'' = JStr s) upd xs
      | JNum n \<Rightarrow> (case elem_index xs n of None \<Rightarrow> xs | Some i \<Rightarrow> xs[i := upd (xs ! i)])
      | _ \<Rightarrow> xs)"

subsection \<open>Top-level fields\<close>

definition getLatitude :: "document \<Rightarrow> jsval" where
  "getLatitude w =
     (if get_prop (wprops w) ''latitude'' = JNum (Finite 0) then JNum (Finite 0)
      else js_or (get_prop (wprops w) ''latitude'') JNull)"

definition getLongitude :: "document \<Rightarrow> jsval" where
  "getLongitude w =
     (if get_prop (wprops w) ''longitude'' = JNum (Finite 0) then JNum (Finite 0)
      else js_or (get_prop (wprops w) ''longitude'') JNull)"

definition getTzoffset :: "document \<Rightarrow> jsval" where
  "getTzoffset w =
     (if get_prop (wprops w) ''tzoffset'' = JNum (Finite 0) then JNum (Finite 0)
      else js_or (get_prop (wprops w) ''tzoffset'') JNull)"

definition setTzoffset :: "document \<Rightarrow> jsval \<Rightarrow> document" where
  "setTzoffset w v = w\<lparr>wprops := put (wprops w) ''tzoffset'' v\<rparr>"

definition getQueryCost :: "document \<Rightarrow> jsval" where
  "getQueryCost w = js_or (get_prop (wprops w) ''queryCost'') JNull"

definition setQueryCost :: "document \<Rightarrow> jsval \<Rightarrow> document" where
  "setQueryCost w v = w\<lparr>wprops := put (wprops w) ''queryCost'' v\<rparr>"

subsection \<open>Field accessors on a day\<close>

text \<open>
  The get and set methods of the fields repeat a few bodies with another property name.
  Each body is modelled once, with the property name as \<open>field\<close>.

  The getter with the zero test (\<open>getTempOnDay\<close> and the 26 other methods of
  \<open>numeric_day_fields\<close>):
  \<^verbatim>\<open>let tmp = days.find(day => day.datetime === dayInfo)?.FIELD; return tmp === 0 ? 0 : (tmp || null);\<close>
\<close>

definition numeric_day_fields :: "string list" where
  "numeric_day_fields =
     [''temp'', ''tempmax'', ''tempmin'', ''feelslike'', ''feelslikemax'', ''feelslikemin'',
      ''dew'', ''humidity'', ''precip'', ''precipprob'', ''precipcover'', ''preciptype'',
      ''snow'', ''snowdepth'', ''windgust'', ''windspeed'', ''winddir'', ''pressure'',
      ''cloudcover'', ''visibility'', ''solarradiation'', ''solarenergy'', ''uvindex'',
      ''severerisk'', ''sunriseEpoch'', ''sunsetEpoch'', ''moonphase'']"

definition text_day_fields :: "string list" where
  "text_day_fields = [''stations'', ''sunrise'', ''sunset'', ''conditions'', ''description'', ''icon'']"

definition datetime_fields :: "string list" where
  "datetime_fields =
     [''temp'', ''feelslike'', ''dew'', ''humidity'', ''precip'', ''precipprob'', ''preciptype'',
      ''snow'', ''snowdepth'', ''windgust'', ''windspeed'', ''winddir'', ''pressure'',
      ''cloudcover'', ''visibility'', ''solarradiation'', ''solarenergy'', ''uvindex'',
      ''severerisk'', ''stations'', ''source'', ''conditions'', ''icon'']"

definition getNumericOnDay :: "string \<Rightarrow> document \<Rightarrow> jsval \<Rightarrow> error + jsval" where
  "getNumericOnDay field w dayInfo =
     catch_null
       (case dayInfo of
          JStr s \<Rightarrow>
            (case days w of
               None \<Rightarrow> Inl NativeTypeError
             | Some ds \<Rightarrow>
                 (let tmp = opt_chain (map_option dprops
                              (find (\<lambda>day. get_prop (dprops day) ''datetime'' = JStr s) ds)) field
                  in Inr (if tmp = JNum (Finite 0) then JNum (Finite 0) else js_or tmp JNull)))
        | JNum n \<Rightarrow>
            (case days w of
               None \<Rightarrow> Inl NativeTypeError
             | Some ds \<Rightarrow>
                 (let tmp = opt_chain (map_option dprops (elem_at ds n)) field
                  in Inr (if tmp = JNum (Finite 0) then JNum (Finite 0) else js_or tmp JNull)))
        | _ \<Rightarrow> Inl InvalidIdentifierType)"

text \<open>
  The getter without the zero test (\<open>getSunriseOnDay\<close> and the 5 other methods of
  \<open>text_day_fields\<close>):
  \<^verbatim>\<open>return days.find(day => day.datetime === dayInfo)?.FIELD || null;\<close>
\<close>

definition getTextOnDay :: "string \<Rightarrow> document \<Rightarrow> jsval \<Rightarrow> error + jsval" where
  "getTextOnDay field w dayInfo =
     catch_null
       (case dayInfo of
          JStr s \<Rightarrow>
            (case days w of
               None \<Rightarrow> Inl NativeTypeError
             | Some ds \<Rightarrow>
                 Inr (js_or (opt_chain (map_option dprops
                        (find (\<lambda>day. get_prop (dprops day) ''datetime'' = JStr s) ds)) field) JNull))
        | JNum n \<Rightarrow>
            (case days w of
               None \<Rightarrow> Inl NativeTypeError
             | Some ds \<Rightarrow> Inr (js_or (opt_chain (map_option dprops (elem_at ds n)) field) JNull))
        | _ \<Rightarrow> Inl InvalidIdentifierType)"

text \<open>
  The setter of \<open>setTempOnDay\<close>:
  \<^verbatim>\<open>let day = days.find(day => day.datetime === dayInfo); if(day) day.FIELD = value;\<close>
\<close>

definition setOnDay_find :: "string \<Rightarrow> document \<Rightarrow> jsval \<Rightarrow> jsval \<Rightarrow> error option \<times> document" where
  "setOnDay_find field w dayInfo v =
     (case dayInfo of
        JStr s \<Rightarrow>
          (case days w of
             None \<Rightarrow> (Some NativeTypeError, w)
           | Some ds \<Rightarrow>
               (case find (\<lambda>day. get_prop (dprops day) ''datetime'' = JStr s) ds of
                  None \<Rightarrow> (None, w)
                | Some day \<Rightarrow>
                    (None, w\<lparr>days := Some (write_through dprops ds dayInfo
                                      (\<lambda>day. day\<lparr>dprops := put (dprops day) field v\<rparr>))\<rparr>)))
      | JNum n \<Rightarrow>
          (case days w of
             None \<Rightarrow> (Some NativeTypeError, w)
           | Some ds \<Rightarrow>
               (case elem_at ds n of
                  None \<Rightarrow> (None, w)
                | Some day \<Rightarrow>
                    (None, w\<lparr>days := Some (write_through dprops ds dayInfo
                                      (\<lambda>day. day\<lparr>dprops := put (dprops day) field v\<rparr>))\<rparr>)))
      | _ \<Rightarrow> (Some InvalidIdentifierType, w))"

text \<open>
  The setter of the 32 other methods (\<open>setTempmaxOnDay\<close>, ...):
  \<^verbatim>\<open>for(let day of days){ if(day.datetime === dayInfo){ day.FIELD = value; break; } }\<close>
  with the number branch of \<open>setTempOnDay\<close>.
\<close>

definition setOnDay_loop :: "string \<Rightarrow> document \<Rightarrow> jsval \<Rightarrow> jsval \<Rightarrow> error option \<times> document" where
  "setOnDay_loop field w dayInfo v =
     (case dayInfo of
        JStr s \<Rightarrow>
          (case days w of
             None \<Rightarrow> (Some NativeTypeError, w)
           | Some ds \<Rightarrow>
               (None, w\<lparr>days := Some (update_first (\<lambda>day. get_prop (dprops day) ''datetime'' = JStr s)
                                 (\<lambda>day. day\<lparr>dprops := put (dprops day) field v\<rparr>) ds)\<rparr>))
      | JNum n \<Rightarrow>
          (case days w of
             None \<Rightarrow> (Some NativeTypeError, w)
           | Some ds \<Rightarrow>
               (case elem_at ds n of
                  None \<Rightarrow> (None, w)
                | Some day \<Rightarrow>
                    (None, w\<lparr>days := Some (write_through dprops ds dayInfo
                                      (\<lambda>day. day\<lparr>dprops := put (dprops day) field v\<rparr>))\<rparr>)))
      | _ \<Rightarrow> (Some InvalidIdentifierType, w))"

text \<open>The get and the set method of a field of the day catalog.\<close>

definition getFieldOnDay :: "string \<Rightarrow> document \<Rightarrow> jsval \<Rightarrow> error + jsval" where
  "getFieldOnDay field =
     (if field \<in> set numeric_day_fields then getNumericOnDay field else getTextOnDay field)"

definition setFieldOnDay :: "string \<Rightarrow> document \<Rightarrow> jsval \<Rightarrow> jsval \<Rightarrow> error option \<times> document" where
  "setFieldOnDay field = (if field = ''temp'' then setOnDay_find field else setOnDay_loop field)"

definition getTempOnDay :: "document \<Rightarrow> jsval \<Rightarrow> error + jsval" where
  "getTempOnDay = getNumericOnDay ''temp''"

definition setTempOnDay :: "document \<Rightarrow> jsval \<Rightarrow> jsval \<Rightarrow> error option \<times> document" where
  "setTempOnDay = setOnDay_find ''temp''"

subsection \<open>Field accessors at a datetime\<close>

text \<open>
  The getter of the 23 methods of \<open>datetime_fields\<close> (\<open>getTempAtDatetime\<close>, ...):
  \<^verbatim>\<open>const dayItem = Weather.filterItemByDatetimeVal(days, dayInfo);
if(!dayItem) return dayItem;
const hourItem = Weather.filterItemByDatetimeVal(dayItem.hours, timeInfo);
return hourItem && hourItem.FIELD;\<close>
\<close>

definition getFieldAtDatetime :: "string \<Rightarrow> document \<Rightarrow> jsval \<Rightarrow> jsval \<Rightarrow> error + jsval" where
  "getFieldAtDatetime field w dayInfo timeInfo =
     catch_null
       (case filterItemByDatetimeVal dprops (days w) dayInfo of
          Inl e \<Rightarrow> Inl e
        | Inr None \<Rightarrow> Inr JNull
        | Inr (Some dayItem) \<Rightarrow>
            (case filterItemByDatetimeVal (\<lambda>x. x) (hours dayItem) timeInfo of
               Inl e \<Rightarrow> Inl e
             | Inr None \<Rightarrow> Inr JNull
             | Inr (Some hourItem) \<Rightarrow> Inr (get_prop hourItem field)))"

text \<open>
  The setter of the same 23 fields (\<open>setTempAtDatetime\<close>, ...):
  \<^verbatim>\<open>const dayItem = Weather.filterItemByDatetimeVal(days, dayInfo);
dayItem && (Weather.filterItemByDatetimeVal(dayItem.hours, timeInfo).FIELD = value);\<close>
  The assignment to a property of \<open>null\<close> throws.
\<close>

definition setFieldAtDatetime ::
  "string \<Rightarrow> document \<Rightarrow> jsval \<Rightarrow> jsval \<Rightarrow> jsval \<Rightarrow> error option \<times> document" where
  "setFieldAtDatetime field w dayInfo timeInfo v =
     (case filterItemByDatetimeVal dprops (days w) dayInfo of
        Inl e \<Rightarrow> (Some e, w)
      | Inr None \<Rightarrow> (None, w)
      | Inr (Some dayItem) \<Rightarrow>
          (case filterItemByDatetimeVal (\<lambda>x. x) (hours dayItem) timeInfo of
             Inl e \<Rightarrow> (Some e, w)
           | Inr None \<Rightarrow> (Some NativeTypeError, w)
           | Inr (Some hourItem) \<Rightarrow>
               (None,
                w\<lparr>days := map_option
                     (\<lambda>ds. write_through dprops ds dayInfo
                        (\<lambda>day. day\<lparr>hours := map_option
                           (\<lambda>hs. write_through (\<lambda>x. x) hs timeInfo (\<lambda>h. put h field v))
                           (hours day)\<rparr>))
                     (days w)\<rparr>)))"

definition getTempAtDatetime :: "document \<Rightarrow> jsval \<Rightarrow> jsval \<Rightarrow> error + jsval" where
  "getTempAtDatetime = getFieldAtDatetime ''temp''"

definition setTempAtDatetime :: "document \<Rightarrow> jsval \<Rightarrow> jsval \<Rightarrow> jsval \<Rightarrow> error option \<times> document" where
  "setTempAtDatetime = setFieldAtDatetime ''temp''"

subsection \<open>Whole hour records at a datetime\<close>

text \<open>
  \<open>getDataAtDatetime(dayInfo, timeInfo)\<close>, with \<open>elements\<close> left at its default \<open>[]\<close>:
  \<^verbatim>\<open>const dayItem = Weather.filterItemByDatetimeVal(days, dayInfo);
const data = Weather.filterItemByDatetimeVal(dayItem.hours, timeInfo);
return data;\<close>
  Reading \<open>hours\<close> of \<open>null\<close> throws; the \<open>catch\<close> block throws the error again.
\<close>

definition getDataAtDatetime :: "document \<Rightarrow> jsval \<Rightarrow> jsval \<Rightarrow> error + jsval" where
  "getDataAtDatetime w dayInfo timeInfo =
     (case filterItemByDatetimeVal dprops (days w) dayInfo of
        Inl e \<Rightarrow> Inl e
      | Inr None \<Rightarrow> Inl NativeTypeError
      | Inr (Some dayItem) \<Rightarrow>
          (case filterItemByDatetimeVal (\<lambda>x. x) (hours dayItem) timeInfo of
             Inl e \<Rightarrow> Inl e
           | Inr data \<Rightarrow> Inr (item_val data)))"

definition getDatetimeEpochAtDatetime :: "document \<Rightarrow> jsval \<Rightarrow> jsval \<Rightarrow> error + jsval" where
  "getDatetimeEpochAtDatetime w dayInfo timeInfo =
     (case filterItemByDatetimeVal dprops (days w) dayInfo of
        Inl e \<Rightarrow> Inl e
      | Inr None \<Rightarrow> Inl NativeTypeError
      | Inr (Some dayItem) \<Rightarrow>
          (case filterItemByDatetimeVal (\<lambda>x. x) (hours dayItem) timeInfo of
             Inl e \<Rightarrow> Inl e
           | Inr None \<Rightarrow> Inl NativeTypeError
           | Inr (Some hourItem) \<Rightarrow> Inr (get_prop hourItem ''datetimeEpoch'')))"

definition setDatetimeEpochAtDatetime ::
  "document \<Rightarrow> jsval \<Rightarrow> jsval \<Rightarrow> jsval \<Rightarrow> error option \<times> document" where
  "setDatetimeEpochAtDatetime w dayInfo timeInfo v =
     (case filterItemByDatetimeVal dprops (days w) dayInfo of
        Inl e \<Rightarrow> (Some e, w)
      | Inr None \<Rightarrow> (Some NativeTypeError, w)
      | Inr (Some dayItem) \<Rightarrow>
          (case filterItemByDatetimeVal (\<lambda>x. x) (hours dayItem) timeInfo of
             Inl e \<Rightarrow> (Some e, w)
           | Inr None \<Rightarrow> (Some NativeTypeError, w)
           | Inr (Some hourItem) \<Rightarrow>
               (None,
                w\<lparr>days := map_option
                     (\<lambda>ds. write_through dprops ds dayInfo
                        (\<lambda>day. day\<lparr>hours := map_option
                           (\<lambda>hs. write_through (\<lambda>x. x) hs timeInfo (\<lambda>h. put h ''datetimeEpoch'' v))
                           (hours day)\<rparr>))
                     (days w)\<rparr>)))"

text \<open>
  \<open>setDataAtDatetime(dayInfo, timeInfo, data)\<close> and
  \<open>updateDataAtDatetime(dayInfo, timeInfo, data)\<close>:
  \<^verbatim>\<open>const dayItem = Weather.filterItemByDatetimeVal(days, dayInfo);
Weather.setItemByDatetimeVal(dayItem.hours, timeInfo, data);\<close>
  The static function works on the day's own \<open>hours\<close> array, so the day holds the changed
  sequence afterwards. The result also carries the \<open>data\<close> argument after the call.
\<close>

definition setDataAtDatetime ::
  "document \<Rightarrow> jsval \<Rightarrow> jsval \<Rightarrow> jsval \<Rightarrow> error option \<times> document \<times> jsval" where
  "setDataAtDatetime w dayInfo timeInfo data =
     (case filterItemByDatetimeVal dprops (days w) dayInfo of
        Inl e \<Rightarrow> (Some e, w, data)
      | Inr None \<Rightarrow> (Some NativeTypeError, w, data)
      | Inr (Some dayItem) \<Rightarrow>
          (case setItemByDatetimeVal (hours dayItem) timeInfo data of
             (thrown, hours', data') \<Rightarrow>
               (thrown,
                w\<lparr>days := map_option
                     (\<lambda>ds. write_through dprops ds dayInfo (\<lambda>day. day\<lparr>hours := hours'\<rparr>))
                     (days w)\<rparr>,
                data')))"

definition updateDataAtDatetime ::
  "document \<Rightarrow> jsval \<Rightarrow> jsval \<Rightarrow> jsval \<Rightarrow> error option \<times> document \<times> jsval" where
  "updateDataAtDatetime w dayInfo timeInfo data =
     (case filterItemByDatetimeVal dprops (days w) dayInfo of
        Inl e \<Rightarrow> (Some e, w, data)
      | Inr None \<Rightarrow> (Some NativeTypeError, w, data)
      | Inr (Some dayItem) \<Rightarrow>
          (case updateItemByDatetimeVal (hours dayItem) timeInfo data of
             (thrown, hours', data') \<Rightarrow>
               (thrown,
                w\<lparr>days := map_option
                     (\<lambda>ds. write_through dprops ds dayInfo (\<lambda>day. day\<lparr>hours := hours'\<rparr>))
                     (days w)\<rparr>,
                data')))"

subsection \<open>A sample document\<close>

text \<open>
  The document with the one day
  \<open>{datetime: "2025-03-07", temp: 15, hours: [{datetime: "00:00:00", temp: 14}]}\<close>.
\<close>

definition sample_day :: day where
  "sample_day =
     \<lparr>dprops = [(''datetime'', JStr ''2025-03-07''), (''temp'', JNum (Finite 15))],
      hours = Some [[(''datetime'', JStr ''00:00:00''), (''temp'', JNum (Finite 14))]]\<rparr>"

definition sample_doc :: document where
  "sample_doc = \<lparr>wprops = [], days = Some [sample_day]\<rparr>"

section \<open>Validation of a date parameter\<close>

text \<open>
  The regular expressions of \<open>validateParamDate\<close> use literal characters, \<open>\d\<close>, \<open>\d+\<close>,
  a fixed number of repetitions, sequence and alternation, always between \<open>^\<close> and \<open>$\<close>.
  \<open>re_test r s\<close> is \<open>/^r$/.test(s)\<close>, computed with derivatives. A string is a list of
  8-bit characters; \<open>\d\<close> is one of the ten ASCII digits.
\<close>

datatype regex = Never | Empty | Chr char | Digit | DigitPlus | Seq regex regex | Alt regex regex

definition is_digit :: "char \<Rightarrow> bool" where
  "is_digit c \<longleftrightarrow> c \<in> set ''0123456789''"

fun nullable :: "regex \<Rightarrow> bool" where
  "nullable Never = False"
| "nullable Empty = True"
| "nullable (Chr c) = False"
| "nullable Digit = False"
| "nullable DigitPlus = False"
| "nullable (Seq r s) = (nullable r \<and> nullable s)"
| "nullable (Alt r s) = (nullable r \<or> nullable s)"

fun deriv :: "char \<Rightarrow> regex \<Rightarrow> regex" where
  "deriv c Never = Never"
| "deriv c Empty = Never"
| "deriv c (Chr d) = (if c = d then Empty else Never)"
| "deriv c Digit = (if is_digit c then Empty else Never)"
| "deriv c DigitPlus = (if is_digit c then Alt Empty DigitPlus else Never)"
| "deriv c (Seq r s) =
     (if nullable r then Alt (Seq (deriv c r) s) (deriv c s) else Seq (deriv c r) s)"
| "deriv c (Alt r s) = Alt (deriv c r) (deriv c s)"

definition re_test :: "regex \<Rightarrow> string \<Rightarrow> bool" where
  "re_test r s = nullable (foldl (\<lambda>r c. deriv c r) r s)"

definition seqs :: "regex list \<Rightarrow> regex" where
  "seqs rs = foldr Seq rs Empty"

definition lit :: "string \<Rightarrow> regex" where
  "lit s = seqs (map Chr s)"

definition alts :: "regex list \<Rightarrow> regex" where
  "alts rs = foldr Alt rs Never"

text \<open>The array of dynamic dates that \<open>includes(param)\<close> searches.\<close>

definition date_keywords :: "string list" where
  "date_keywords =
     [''today'', ''tomorrow'', ''yesterday'', ''yeartodate'', ''monthtodate'',
      ''lastyear'', ''last24hours'', ''nextweekend'', ''lastweekend'']"

definition weekdays :: "string list" where
  "weekdays =
     [''saturday'', ''sunday'', ''monday'', ''tuesday'', ''wednesday'', ''thursday'', ''friday'']"

text \<open>\<^verbatim>\<open>/^next(\d+)days$/\<close> and \<^verbatim>\<open>/^last(\d+)days$/\<close>\<close>

definition re_next_days :: regex where
  "re_next_days = seqs [lit ''next'', DigitPlus, lit ''days'']"

definition re_last_days :: regex where
  "re_last_days = seqs [lit ''last'', DigitPlus, lit ''days'']"

text \<open>\<^verbatim>\<open>/^next(saturday|sunday|monday|tuesday|wednesday|thursday|friday)$/\<close> and the same with \<open>last\<close>\<close>

definition re_next_weekday :: regex where
  "re_next_weekday = seqs [lit ''next'', alts (map lit weekdays)]"

definition re_last_weekday :: regex where
  "re_last_weekday = seqs [lit ''last'', alts (map lit weekdays)]"

text \<open>\<^verbatim>\<open>/^\d{4,4}\-\d{2,2}\-\d{2,2}$/\<close>\<close>

definition re_date :: regex where
  "re_date =
     seqs (replicate 4 Digit @ [Chr CHR ''-''] @ replicate 2 Digit @ [Chr CHR ''-'']
           @ replicate 2 Digit)"

text \<open>\<^verbatim>\<open>/^\d\d\d\d\-\d\d\-\d\dT\d\d\:\d\d\:\d\d$/\<close>\<close>

definition re_datetime :: regex where
  "re_datetime =
     seqs [Digit, Digit, Digit, Digit, Chr CHR ''-'', Digit, Digit, Chr CHR ''-'',
           Digit, Digit, Chr CHR ''T'', Digit, Digit, Chr CHR '':'', Digit, Digit,
           Chr CHR '':'', Digit, Digit]"

definition validateParamDate :: "jsval \<Rightarrow> error + jsval" where
  "validateParamDate param =
     (case param of
        JStr s \<Rightarrow>
          (if s \<in> set date_keywords
               \<or> re_test re_next_days s \<or> re_test re_last_days s
               \<or> re_test re_next_weekday s \<or> re_test re_last_weekday s
           then Inr param
           else if re_test re_date s then Inr param
           else if re_test re_datetime s then Inr param
           else Inl InvalidFormat)
      | JNum n \<Rightarrow> Inr param
      | _ \<Rightarrow> Inl InvalidType)"

subsection \<open>The date expressions of the specification\<close>

text \<open>
  The strings that the specification lists, written from its words and not from the code:
  a keyword of the fixed vocabulary of relative dates; \<open>next<N>days\<close> or \<open>last<N>days\<close>
  with \<open>N\<close> a decimal numeral (a non-empty string of decimal digits, leading zeros
  allowed); \<open>next<Weekday>\<close> or \<open>last<Weekday>\<close> for the seven weekday names; a string of
  the format \<open>YYYY-MM-DD\<close>; a string of the format \<open>YYYY-MM-DDTHH:MM:SS\<close>. A format is a
  layout of digits: the letters \<open>Y\<close>, \<open>M\<close>, \<open>D\<close>, \<open>H\<close>, \<open>S\<close> stand for one decimal digit
  each and every other character for itself. No range of a month, a day or an hour is
  part of a format, so \<open>9999-99-99\<close> has the format \<open>YYYY-MM-DD\<close>.
\<close>

definition keyword_vocabulary :: "string set" where
  "keyword_vocabulary =
     {''today'', ''tomorrow'', ''yesterday'', ''yeartodate'', ''monthtodate'', ''lastyear'',
      ''last24hours'', ''nextweekend'', ''lastweekend''}"

definition weekday_names :: "string set" where
  "weekday_names =
     {''monday'', ''tuesday'', ''wednesday'', ''thursday'', ''friday'', ''saturday'', ''sunday''}"

definition decimal_digit :: "char \<Rightarrow> bool" where
  "decimal_digit c \<longleftrightarrow>
     c = CHR ''0'' \<or> c = CHR ''1'' \<or> c = CHR ''2'' \<or> c = CHR ''3'' \<or> c = CHR ''4'' \<or>
     c = CHR ''5'' \<or> c = CHR ''6'' \<or> c = CHR ''7'' \<or> c = CHR ''8'' \<or> c = CHR ''9''"

definition decimal_numeral :: "string \<Rightarrow> bool" where
  "decimal_numeral ds \<longleftrightarrow> ds \<noteq> [] \<and> (\<forall>c \<in> set ds. decimal_digit c)"

definition fits :: "char \<Rightarrow> char \<Rightarrow> bool" where
  "fits f c = (if f \<in> {CHR ''Y'', CHR ''M'', CHR ''D'', CHR ''H'', CHR ''S''} then decimal_digit c
               else c = f)"

definition has_format :: "string \<Rightarrow> string \<Rightarrow> bool" where
  "has_format fmt s = list_all2 fits fmt s"

definition date_expression :: "string \<Rightarrow> bool" where
  "date_expression s \<longleftrightarrow>
     s \<in> keyword_vocabulary
   \<or> (\<exists>n. decimal_numeral n \<and> (s = ''next'' @ n @ ''days'' \<or> s = ''last'' @ n @ ''days''))
   \<or> (\<exists>wd \<in> weekday_names. s = ''next'' @ wd \<or> s = ''last'' @ wd)
   \<or> has_format ''YYYY-MM-DD'' s
   \<or> has_format ''YYYY-MM-DDTHH:MM:SS'' s"

subsection \<open>The language of a regular expression\<close>

fun lang :: "regex \<Rightarrow> string set" where
  "lang Never = {}"
| "lang Empty = {[]}"
| "lang (Chr c) = {[c]}"
| "lang Digit = {[c] | c. is_digit c}"
| "lang DigitPlus = {w. w \<noteq> [] \<and> (\<forall>c \<in> set w. is_digit c)}"
| "lang (Seq r s) = {u @ v | u v. u \<in> lang r \<and> v \<in> lang s}"
| "lang (Alt r s) = lang r \<union> lang s"

definition format_atom :: "char \<Rightarrow> regex" where
  "format_atom f = (if f \<in> set ''YMDHS'' then Digit else Chr f)"

section \<open>Facts about objects and sequences\<close>

lemma typeof_object_iff: "typeof v = ''object'' \<and> v \<noteq> JNull \<longleftrightarrow> (\<exists>ps. v = JObj ps)"
  by (cases v) auto

lemma get_prop_put_same: "get_prop (put ps k v) k = v"
  by (simp add: get_prop_def put_def update_conv')

lemma map_of_put_other: "k' \<noteq> k \<Longrightarrow> map_of (put ps k v) k' = map_of ps k'"
  by (simp add: put_def update_conv')

lemma get_prop_put_other: "k' \<noteq> k \<Longrightarrow> get_prop (put ps k v) k' = get_prop ps k'"
  by (simp add: get_prop_def map_of_put_other)

lemma map_of_put: "map_of (put ps k v) = (map_of ps)(k \<mapsto> v)"
  by (simp add: put_def update_conv')

lemma keys_put: "fst ` set (put ps k v) = insert k (fst ` set ps)"
  by (simp add: put_def dom_update)

lemma map_of_foldl_put:
  "map_of (foldl (\<lambda>t k. put t k (g k)) t ks) k
     = (if k \<in> set ks then Some (g k) else map_of t k)"
  by (induction ks arbitrary: t) (auto simp: map_of_put)

lemma map_of_assign:
  "map_of (assign t s) k = (if k \<in> fst ` set s then Some (get_prop s k) else map_of t k)"
  unfolding assign_def by (simp add: map_of_foldl_put)

lemma get_prop_assign:
  "get_prop (assign t s) k = (if k \<in> fst ` set s then get_prop s k else get_prop t k)"
  by (simp add: get_prop_def [of "assign t s"] map_of_assign) (simp add: get_prop_def)

lemma update_first_none: "find P xs = None \<Longrightarrow> update_first P f xs = xs"
  by (induction xs) (auto split: if_splits)

lemma update_first_some:
  "find P xs = Some r \<Longrightarrow> \<exists>i<length xs. xs ! i = r \<and> P r \<and> update_first P f xs = xs[i := f r]"
proof (induction xs)
  case Nil
  then show ?case by simp
next
  case (Cons x xs)
  show ?case
  proof (cases "P x")
    case True
    with Cons.prems have "x = r" by simp
    with True have "(x # xs) ! 0 = r \<and> P r \<and> update_first P f (x # xs) = (x # xs)[0 := f r]"
      by simp
    then show ?thesis by blast
  next
    case False
    with Cons.prems have "find P xs = Some r" by simp
    from Cons.IH [OF this] obtain i where
      i: "i < length xs" "xs ! i = r" "P r" "update_first P f xs = xs[i := f r]" by blast
    with False have "(x # xs) ! Suc i = r \<and> P r \<and> update_first P f (x # xs) = (x # xs)[Suc i := f r]"
      by simp
    with i(1) show ?thesis by (metis Suc_less_eq length_Cons)
  qed
qed

lemma elem_index_less: "elem_index xs n = Some i \<Longrightarrow> i < length xs"
  by (auto simp: elem_index_def split: option.splits if_splits)

lemma elem_at_some: "elem_at xs n = Some r \<longleftrightarrow> (\<exists>i. elem_index xs n = Some i \<and> xs ! i = r)"
  by (auto simp: elem_at_def)

lemma elem_at_none: "elem_at xs n = None \<longleftrightarrow> elem_index xs n = None"
  by (simp add: elem_at_def)

lemma filter_invalid_type:
  "typeof x \<noteq> ''string'' \<Longrightarrow> typeof x \<noteq> ''number''
     \<Longrightarrow> filterItemByDatetimeVal pr src x = Inl InvalidIdentifierType"
  by (cases x) (simp_all add: filterItemByDatetimeVal_def)

lemma filter_found_days: "filterItemByDatetimeVal pr src x = Inr r \<Longrightarrow> \<exists>xs. src = Some xs"
  by (cases x; cases src) (simp_all add: filterItemByDatetimeVal_def)

lemma filter_found_index:
  "filterItemByDatetimeVal pr (Some xs) x = Inr (Some r) \<Longrightarrow>
     \<exists>i<length xs. xs ! i = r \<and> write_through pr xs x upd = xs[i := upd r]"
proof (cases x)
  case (JStr s)
  assume "filterItemByDatetimeVal pr (Some xs) x = Inr (Some r)"
  with JStr have "find (\<lambda>item. get_prop (pr item) ''datetime'' = JStr s) xs = Some r"
    by (simp add: filterItemByDatetimeVal_def)
  from update_first_some [OF this, of upd] JStr show ?thesis
    by (auto simp: write_through_def)
next
  case (JNum n)
  assume "filterItemByDatetimeVal pr (Some xs) x = Inr (Some r)"
  with JNum obtain i where "elem_index xs n = Some i" "xs ! i = r"
    by (auto simp: filterItemByDatetimeVal_def elem_at_some)
  with JNum elem_index_less [of xs n i] show ?thesis
    by (auto simp: write_through_def)
qed (simp_all add: filterItemByDatetimeVal_def)

lemma write_through_same:
  assumes "filterItemByDatetimeVal pr (Some xs) x = Inr (Some r)" and "upd r = r"
  shows "write_through pr xs x upd = xs"
proof -
  from filter_found_index [OF assms(1), of upd] obtain i where
    "i < length xs" "xs ! i = r" "write_through pr xs x upd = xs[i := upd r]" by blast
  with assms(2) show ?thesis by (simp add: list_update_same_conv)
qed

lemma setItem_invalid_type:
  "typeof t \<noteq> ''string'' \<Longrightarrow> typeof t \<noteq> ''number''
     \<Longrightarrow> setItemByDatetimeVal src t (JObj ps) = (Some InvalidIdentifierType, src, JObj ps)"
  by (cases t) (simp_all add: setItemByDatetimeVal_def)

lemma updateItem_invalid_type:
  "typeof t \<noteq> ''string'' \<Longrightarrow> typeof t \<noteq> ''number''
     \<Longrightarrow> updateItemByDatetimeVal src t (JObj ps) = (Some InvalidIdentifierType, src, JObj ps)"
  by (cases t) (simp_all add: updateItemByDatetimeVal_def)

lemma setItem_not_object:
  "typeof data \<noteq> ''object'' \<or> data = JNull
     \<Longrightarrow> setItemByDatetimeVal src t data = (Some InvalidData, src, data)"
  by (simp add: setItemByDatetimeVal_def)

lemma updateItem_not_object:
  "typeof data \<noteq> ''object'' \<or> data = JNull
     \<Longrightarrow> updateItemByDatetimeVal src t data = (Some InvalidData, src, data)"
  by (simp add: updateItemByDatetimeVal_def)

lemma write_back_hours:
  assumes "filterItemByDatetimeVal dprops (days w) d = Inr (Some dayItem)"
  shows "w\<lparr>days := map_option
            (\<lambda>ds. write_through dprops ds d (\<lambda>day. day\<lparr>hours := hours dayItem\<rparr>)) (days w)\<rparr> = w"
proof -
  from filter_found_days [OF assms] obtain ds where ds: "days w = Some ds" by blast
  with assms have "write_through dprops ds d (\<lambda>day. day\<lparr>hours := hours dayItem\<rparr>) = ds"
    by (intro write_through_same [where r = dayItem]) simp_all
  with ds show ?thesis by simp
qed

lemma find_update_first:
  "find P xs = Some r \<Longrightarrow> P (f r) \<Longrightarrow> find P (update_first P f xs) = Some (f r)"
  by (induction xs) (auto split: if_splits)

lemma elem_index_update: "elem_index (xs[i := y]) n = elem_index xs n"
  by (simp add: elem_index_def split: option.splits)

lemma filter_after_write:
  assumes "filterItemByDatetimeVal pr (Some xs) d = Inr (Some r)"
    and "get_prop (pr (upd r)) ''datetime'' = get_prop (pr r) ''datetime''"
  shows "filterItemByDatetimeVal pr (Some (write_through pr xs d upd)) d = Inr (Some (upd r))"
proof (cases d)
  case (JStr s)
  let ?P = "\<lambda>item. get_prop (pr item) ''datetime'' = JStr s"
  from assms(1) JStr have f: "find ?P xs = Some r" by (simp add: filterItemByDatetimeVal_def)
  then have "?P r" by (auto simp: find_Some_iff)
  with assms(2) have "?P (upd r)" by simp
  from find_update_first [of ?P xs r upd, OF f this] JStr show ?thesis
    by (simp add: filterItemByDatetimeVal_def write_through_def)
next
  case (JNum n)
  with assms(1) obtain i where i: "elem_index xs n = Some i" "xs ! i = r"
    by (auto simp: filterItemByDatetimeVal_def elem_at_some)
  with JNum elem_index_less [OF i(1)] show ?thesis
    by (simp add: filterItemByDatetimeVal_def write_through_def elem_at_def elem_index_update)
qed (use assms in \<open>simp_all add: filterItemByDatetimeVal_def\<close>)

lemma day_fields_not_datetime:
  "field \<in> set numeric_day_fields \<union> set text_day_fields \<Longrightarrow> field \<noteq> ''datetime''"
  by (auto simp: numeric_day_fields_def text_day_fields_def)

lemma setFieldOnDay_found:
  assumes "filterItemByDatetimeVal dprops (days w) d = Inr (Some day)" and "days w = Some ds"
  shows "setFieldOnDay field w d v
     = (None, w\<lparr>days := Some (write_through dprops ds d (\<lambda>day. day\<lparr>dprops := put (dprops day) field v\<rparr>))\<rparr>)"
  using assms
  by (cases d)
    (auto simp: setFieldOnDay_def setOnDay_find_def setOnDay_loop_def filterItemByDatetimeVal_def
      write_through_def)

lemma getFieldOnDay_found:
  assumes "filterItemByDatetimeVal dprops (days w) d = Inr (Some day)"
  shows "getFieldOnDay field w d =
     Inr (let tmp = get_prop (dprops day) field
          in if truthy tmp then tmp
             else if tmp = JNum (Finite 0) \<and> field \<in> set numeric_day_fields then tmp else JNull)"
proof -
  from filter_found_days [OF assms] obtain ds where ds: "days w = Some ds" by blast
  show ?thesis using assms ds
    by (cases d)
      (auto simp: getFieldOnDay_def getNumericOnDay_def getTextOnDay_def filterItemByDatetimeVal_def
        catch_null_def opt_chain_def js_or_def Let_def)
qed

section \<open>Facts about the regular expressions\<close>

lemma nullable_lang: "nullable r \<longleftrightarrow> [] \<in> lang r"
  by (induction r) auto

lemma deriv_lang: "w \<in> lang (deriv c r) \<longleftrightarrow> c # w \<in> lang r"
proof (induction r arbitrary: w)
  case (Seq r s)
  have "c # w \<in> lang (Seq r s) \<longleftrightarrow>
        (\<exists>u v. w = u @ v \<and> c # u \<in> lang r \<and> v \<in> lang s) \<or> ([] \<in> lang r \<and> c # w \<in> lang s)"
    by (auto simp: Cons_eq_append_conv)
  with Seq show ?case by (auto simp: nullable_lang)
next
  case DigitPlus
  show ?case by (cases w) auto
qed auto

lemma re_test_lang: "re_test r s \<longleftrightarrow> s \<in> lang r"
  unfolding re_test_def
  by (induction s arbitrary: r) (simp_all add: nullable_lang deriv_lang)

lemma lang_seqs_Nil: "lang (seqs []) = {[]}"
  by (simp add: seqs_def)

lemma lang_seqs_Cons: "lang (seqs (r # rs)) = {u @ v | u v. u \<in> lang r \<and> v \<in> lang (seqs rs)}"
  by (simp add: seqs_def)

lemma lang_lit: "lang (lit s) = {s}"
  unfolding lit_def
  by (induction s) (auto simp: lang_seqs_Nil lang_seqs_Cons)

lemma lang_alts_lit: "lang (alts (map lit ws)) = set ws"
  unfolding alts_def
  by (induction ws) (auto simp: lang_lit)

text \<open>The code's tables against the vocabulary of the specification.\<close>

lemma is_digit_decimal: "is_digit c \<longleftrightarrow> decimal_digit c"
  by (auto simp: is_digit_def decimal_digit_def)

lemma date_keywords_vocabulary: "set date_keywords = keyword_vocabulary"
  unfolding date_keywords_def keyword_vocabulary_def by simp

lemma weekdays_names: "set weekdays = weekday_names"
  unfolding weekdays_def weekday_names_def by (simp add: insert_commute)

lemma lang_DigitPlus: "lang DigitPlus = {n. decimal_numeral n}"
  by (simp add: decimal_numeral_def is_digit_decimal)

lemma lang_days:
  "s \<in> lang (seqs [lit p, DigitPlus, lit ''days''])
     \<longleftrightarrow> (\<exists>n. decimal_numeral n \<and> s = p @ n @ ''days'')"
  unfolding lang_seqs_Cons lang_seqs_Nil lang_lit lang_DigitPlus by auto

lemma lang_weekday:
  "s \<in> lang (seqs [lit p, alts (map lit weekdays)]) \<longleftrightarrow> (\<exists>wd \<in> weekday_names. s = p @ wd)"
  by (auto simp: lang_seqs_Nil lang_seqs_Cons lang_lit lang_alts_lit weekdays_names)

lemma lang_format_atom: "w \<in> lang (format_atom f) \<longleftrightarrow> (\<exists>c. w = [c] \<and> fits f c)"
  by (auto simp: format_atom_def fits_def is_digit_decimal)

lemma lang_format: "s \<in> lang (seqs (map format_atom fmt)) \<longleftrightarrow> has_format fmt s"
proof (induction fmt arbitrary: s)
  case Nil
  show ?case by (simp add: lang_seqs_Nil has_format_def)
next
  case (Cons f fmt)
  have "s \<in> lang (seqs (map format_atom (f # fmt)))
        \<longleftrightarrow> (\<exists>c v. s = c # v \<and> fits f c \<and> v \<in> lang (seqs (map format_atom fmt)))"
  proof
    assume "s \<in> lang (seqs (map format_atom (f # fmt)))"
    then show "\<exists>c v. s = c # v \<and> fits f c \<and> v \<in> lang (seqs (map format_atom fmt))"
      by (auto simp: lang_seqs_Cons lang_format_atom)
  next
    assume "\<exists>c v. s = c # v \<and> fits f c \<and> v \<in> lang (seqs (map format_atom fmt))"
    then obtain c v where cv: "s = [c] @ v" "fits f c" "v \<in> lang (seqs (map format_atom fmt))"
      by auto
    then have "[c] \<in> lang (format_atom f)" by (simp add: lang_format_atom)
    with cv show "s \<in> lang (seqs (map format_atom (f # fmt)))"
      unfolding list.map lang_seqs_Cons by blast
  qed
  also have "\<dots> \<longleftrightarrow> (\<exists>c v. s = c # v \<and> fits f c \<and> has_format fmt v)"
    by (simp add: Cons.IH)
  also have "\<dots> \<longleftrightarrow> has_format (f # fmt) s"
    by (auto simp: has_format_def list_all2_Cons1)
  finally show ?case .
qed

lemma re_date_format: "re_date = seqs (map format_atom ''YYYY-MM-DD'')"
  by (simp add: re_date_def format_atom_def numeral_eq_Suc)

lemma re_datetime_format: "re_datetime = seqs (map format_atom ''YYYY-MM-DDTHH:MM:SS'')"
  by (simp add: re_datetime_def format_atom_def)

lemma accepted_string:
  "s \<in> set date_keywords
     \<or> re_test re_next_days s \<or> re_test re_last_days s
     \<or> re_test re_next_weekday s \<or> re_test re_last_weekday s
     \<or> re_test re_date s \<or> re_test re_datetime s
   \<longleftrightarrow> date_expression s"
  unfolding re_test_lang re_next_days_def re_last_days_def re_next_weekday_def re_last_weekday_def
    lang_days lang_weekday re_date_format re_datetime_format lang_format date_expression_def
    date_keywords_vocabulary
  by blast

section \<open>Properties of the static item functions\<close>

text \<open>
  C10. For every \<open>data\<close> argument that is not a non-null object, both functions throw the
  data \<open>TypeError\<close>, whatever the sequence (even \<open>undefined\<close>) and whatever the identifier
  (even one of invalid type), and neither the sequence nor \<open>data\<close> is changed.
\<close>

theorem data_check_comes_first:
  assumes "\<forall>ps. data \<noteq> JObj ps"
  shows "setItemByDatetimeVal src datetimeVal data = (Some InvalidData, src, data)
       \<and> updateItemByDatetimeVal src datetimeVal data = (Some InvalidData, src, data)"
proof -
  from assms have "typeof data \<noteq> ''object'' \<or> data = JNull"
    using typeof_object_iff [of data] by blast
  then show ?thesis
    unfolding setItemByDatetimeVal_def updateItemByDatetimeVal_def by simp
qed

theorem data_check_comes_first_witness:
  "setItemByDatetimeVal (Some [[(''datetime'', JStr ''00:00:00'')]]) (JBool False) JNull
     = (Some InvalidData, Some [[(''datetime'', JStr ''00:00:00'')]], JNull)
   \<and> updateItemByDatetimeVal None (JNum (Finite 0)) (JStr ''x'') = (Some InvalidData, None, JStr ''x'')"
  using data_check_comes_first [of JNull "Some [[(''datetime'', JStr ''00:00:00'')]]" "JBool False"]
    data_check_comes_first [of "JStr ''x''" None "JNum (Finite 0)"]
  by simp

text \<open>
  C9. When the identifier is a number that resolves to a record of the sequence, the
  \<open>data\<close> argument itself is changed by the call: after it, \<open>data\<close> is the caller's
  object with \<open>datetime\<close> overwritten by the resolved record's \<open>datetime\<close>, and it is this
  changed object that is stored (\<open>setItemByDatetimeVal\<close>) or merged
  (\<open>updateItemByDatetimeVal\<close>) into the sequence.
\<close>

theorem numeric_identifier_mutates_data:
  assumes "elem_index xs n = Some i"
  shows "setItemByDatetimeVal (Some xs) (JNum n) (JObj d)
           = (None,
              Some (xs[i := put d ''datetime'' (get_prop (xs ! i) ''datetime'')]),
              JObj (put d ''datetime'' (get_prop (xs ! i) ''datetime'')))
       \<and> updateItemByDatetimeVal (Some xs) (JNum n) (JObj d)
           = (None,
              Some (xs[i := assign (xs ! i) (put d ''datetime'' (get_prop (xs ! i) ''datetime''))]),
              JObj (put d ''datetime'' (get_prop (xs ! i) ''datetime'')))
       \<and> get_prop (put d ''datetime'' (get_prop (xs ! i) ''datetime'')) ''datetime''
           = get_prop (xs ! i) ''datetime''"
  using assms
  by (simp add: setItemByDatetimeVal_def updateItemByDatetimeVal_def Let_def get_prop_put_same)

theorem numeric_identifier_mutates_data_witness:
  "setItemByDatetimeVal
     (Some [[(''datetime'', JStr ''00:00:00''), (''temp'', JNum (Finite 14))]])
     (JNum (Finite 0))
     (JObj [(''datetime'', JStr ''23:00:00''), (''temp'', JNum (Finite 3))])
   = (None,
      Some [[(''datetime'', JStr ''00:00:00''), (''temp'', JNum (Finite 3))]],
      JObj [(''datetime'', JStr ''00:00:00''), (''temp'', JNum (Finite 3))])"
proof -
  have h: "elem_index [[(''datetime'', JStr ''00:00:00''), (''temp'', JNum (Finite 14))]] (Finite 0) = Some 0"
    by (simp add: elem_index_def)
  show ?thesis
    using numeric_identifier_mutates_data [OF h, of "[(''datetime'', JStr ''23:00:00''), (''temp'', JNum (Finite 3))]"]
    by (simp add: put_def get_prop_def)
qed

text \<open>
  C6. \<open>updateItemByDatetimeVal\<close> with a partial record \<open>d\<close> on a sequence \<open>xs\<close>, for an
  identifier that is a string or a number: when the identifier resolves to nothing, nothing
  is thrown and the sequence is unchanged; when it resolves to the record \<open>r\<close>, only that
  record's position changes, every property of \<open>r\<close> whose key is not in \<open>d\<close> (and is not
  \<open>datetime\<close>) is unchanged, and the new record's \<open>datetime\<close> is that of \<open>r\<close>, whatever
  \<open>datetime\<close> the partial record carries.
\<close>

theorem mergeItemAt_preserves:
  assumes "updateItemByDatetimeVal (Some xs) ident (JObj d) = (thrown, src', data')"
  shows "(filterItemByDatetimeVal (\<lambda>x. x) (Some xs) ident = Inr None
            \<longrightarrow> thrown = None \<and> src' = Some xs)
       \<and> (filterItemByDatetimeVal (\<lambda>x. x) (Some xs) ident = Inr (Some r)
            \<longrightarrow> thrown = None
              \<and> (\<exists>i r'. i < length xs \<and> xs ! i = r \<and> src' = Some (xs[i := r'])
                   \<and> get_prop r' ''datetime'' = get_prop r ''datetime''
                   \<and> (\<forall>k. k \<notin> fst ` set d \<and> k \<noteq> ''datetime'' \<longrightarrow> map_of r' k = map_of r k)))"
proof (cases ident)
  case (JStr s)
  let ?P = "\<lambda>item. get_prop item ''datetime'' = JStr s"
  let ?f = "\<lambda>item. put (assign item d) ''datetime'' (JStr s)"
  from assms JStr have res: "thrown = None" "src' = Some (update_first ?P ?f xs)"
    by (simp_all add: updateItemByDatetimeVal_def)
  have a: "find ?P xs = None \<longrightarrow> thrown = None \<and> src' = Some xs"
    using res by (simp add: update_first_none)
  have b: "find ?P xs = Some r \<longrightarrow> thrown = None
           \<and> (\<exists>i r'. i < length xs \<and> xs ! i = r \<and> src' = Some (xs[i := r'])
                \<and> get_prop r' ''datetime'' = get_prop r ''datetime''
                \<and> (\<forall>k. k \<notin> fst ` set d \<and> k \<noteq> ''datetime'' \<longrightarrow> map_of r' k = map_of r k))"
  proof
    assume "find ?P xs = Some r"
    from update_first_some [OF this, of ?f] obtain i where
      i: "i < length xs" "xs ! i = r" "?P r" "update_first ?P ?f xs = xs[i := ?f r]" by blast
    have "get_prop (?f r) ''datetime'' = get_prop r ''datetime''"
      using i(3) by (simp add: get_prop_put_same)
    moreover have "\<forall>k. k \<notin> fst ` set d \<and> k \<noteq> ''datetime'' \<longrightarrow> map_of (?f r) k = map_of r k"
      by (simp add: map_of_put_other map_of_assign)
    ultimately show "thrown = None
           \<and> (\<exists>i r'. i < length xs \<and> xs ! i = r \<and> src' = Some (xs[i := r'])
                \<and> get_prop r' ''datetime'' = get_prop r ''datetime''
                \<and> (\<forall>k. k \<notin> fst ` set d \<and> k \<noteq> ''datetime'' \<longrightarrow> map_of r' k = map_of r k))"
      using res i by blast
  qed
  from a b JStr show ?thesis by (simp add: filterItemByDatetimeVal_def)
next
  case (JNum n)
  show ?thesis
  proof (cases "elem_index xs n")
    case None
    with assms JNum show ?thesis
      by (auto simp: updateItemByDatetimeVal_def filterItemByDatetimeVal_def elem_at_def)
  next
    case (Some i)
    let ?d' = "put d ''datetime'' (get_prop (xs ! i) ''datetime'')"
    let ?r' = "assign (xs ! i) ?d'"
    from assms JNum Some have res: "thrown = None" "src' = Some (xs[i := ?r'])"
      by (simp_all add: updateItemByDatetimeVal_def Let_def)
    have "get_prop ?r' ''datetime'' = get_prop (xs ! i) ''datetime''"
      by (simp add: get_prop_assign keys_put get_prop_put_same)
    moreover have "\<forall>k. k \<notin> fst ` set d \<and> k \<noteq> ''datetime'' \<longrightarrow> map_of ?r' k = map_of (xs ! i) k"
      by (simp add: map_of_assign keys_put)
    ultimately show ?thesis
      using res Some JNum elem_index_less [OF Some]
      by (auto simp: filterItemByDatetimeVal_def elem_at_def)
  qed
qed (simp_all add: filterItemByDatetimeVal_def)

theorem mergeItemAt_preserves_witness:
  "filterItemByDatetimeVal (\<lambda>x. x)
      (Some [[(''datetime'', JStr ''00:00:00''), (''temp'', JNum (Finite 14)), (''humidity'', JNum (Finite 80))]])
      (JStr ''00:00:00'')
     = Inr (Some [(''datetime'', JStr ''00:00:00''), (''temp'', JNum (Finite 14)), (''humidity'', JNum (Finite 80))])
   \<and> (\<exists>i r'. i < length [[(''datetime'', JStr ''00:00:00''), (''temp'', JNum (Finite 14)), (''humidity'', JNum (Finite 80))]]
         \<and> fst (snd (updateItemByDatetimeVal
               (Some [[(''datetime'', JStr ''00:00:00''), (''temp'', JNum (Finite 14)), (''humidity'', JNum (Finite 80))]])
               (JStr ''00:00:00'')
               (JObj [(''datetime'', JStr ''23:00:00''), (''humidity'', JNum (Finite 50))])))
             = Some ([[(''datetime'', JStr ''00:00:00''), (''temp'', JNum (Finite 14)), (''humidity'', JNum (Finite 80))]][i := r'])
         \<and> get_prop r' ''datetime'' = JStr ''00:00:00''
         \<and> map_of r' ''temp'' = Some (JNum (Finite 14)))
   \<and> filterItemByDatetimeVal (\<lambda>x. x)
      (Some [[(''datetime'', JStr ''00:00:00''), (''temp'', JNum (Finite 14)), (''humidity'', JNum (Finite 80))]])
      (JNum (Finite 5))
     = Inr None
   \<and> fst (snd (updateItemByDatetimeVal
               (Some [[(''datetime'', JStr ''00:00:00''), (''temp'', JNum (Finite 14)), (''humidity'', JNum (Finite 80))]])
               (JNum (Finite 5))
               (JObj [(''datetime'', JStr ''23:00:00''), (''humidity'', JNum (Finite 50))])))
     = Some [[(''datetime'', JStr ''00:00:00''), (''temp'', JNum (Finite 14)), (''humidity'', JNum (Finite 80))]]"
  (is "?F1 = Inr (Some ?R) \<and> ?E \<and> ?F2 = Inr None \<and> fst (snd ?U2) = Some ?X")
proof -
  let ?D = "[(''datetime'', JStr ''23:00:00''), (''humidity'', JNum (Finite 50))]"
  let ?U1 = "updateItemByDatetimeVal (Some ?X) (JStr ''00:00:00'') (JObj ?D)"
  have f1: "?F1 = Inr (Some ?R)"
    by (simp add: filterItemByDatetimeVal_def get_prop_def)
  have f2: "?F2 = Inr None"
    by (simp add: filterItemByDatetimeVal_def elem_at_def elem_index_def)
  have e1: "?U1 = (fst ?U1, fst (snd ?U1), snd (snd ?U1))" by simp
  have e2: "?U2 = (fst ?U2, fst (snd ?U2), snd (snd ?U2))" by simp
  from mergeItemAt_preserves [OF e1, of ?R] f1 obtain i r' where
    w: "i < length ?X" "fst (snd ?U1) = Some (?X[i := r'])"
       "get_prop r' ''datetime'' = get_prop ?R ''datetime''"
       "\<forall>k. k \<notin> fst ` set ?D \<and> k \<noteq> ''datetime'' \<longrightarrow> map_of r' k = map_of ?R k"
    by blast
  from w(4) have "map_of r' ''temp'' = Some (JNum (Finite 14))" by simp
  moreover from w(3) have "get_prop r' ''datetime'' = JStr ''00:00:00''" by (simp add: get_prop_def)
  ultimately have "?E" using w(1,2) by blast
  moreover from mergeItemAt_preserves [OF e2, of ?R] f2 have "fst (snd ?U2) = Some ?X" by blast
  ultimately show ?thesis using f1 f2 by blast
qed

text \<open>
  C5. \<open>setItemByDatetimeVal\<close> on the sequence
  \<open>[{datetime: "2025-03-07", temp: 15}]\<close> with the string identifier \<open>"2025-03-07"\<close> and
  the new record \<open>{humidity: 80}\<close>: the string branch runs
  \<open>Object.assign(item, data, {datetime: datetimeVal})\<close> on the old record, so the old
  \<open>temp\<close> is still there after the call. With the numeric identifier \<open>0\<close> the same call
  stores a copy of the new record, and \<open>temp\<close> is gone.
\<close>

theorem setItem_string_identifier_keeps_old_fields:
  "setItemByDatetimeVal
     (Some [[(''datetime'', JStr ''2025-03-07''), (''temp'', JNum (Finite 15))]])
     (JStr ''2025-03-07'')
     (JObj [(''humidity'', JNum (Finite 80))])
   = (None,
      Some [[(''datetime'', JStr ''2025-03-07''), (''temp'', JNum (Finite 15)), (''humidity'', JNum (Finite 80))]],
      JObj [(''humidity'', JNum (Finite 80))])
   \<and> setItemByDatetimeVal
     (Some [[(''datetime'', JStr ''2025-03-07''), (''temp'', JNum (Finite 15))]])
     (JNum (Finite 0))
     (JObj [(''humidity'', JNum (Finite 80))])
   = (None,
      Some [[(''humidity'', JNum (Finite 80)), (''datetime'', JStr ''2025-03-07'')]],
      JObj [(''humidity'', JNum (Finite 80)), (''datetime'', JStr ''2025-03-07'')])"
  by (simp add: setItemByDatetimeVal_def get_prop_def put_def assign_def elem_index_def Let_def)

theorem setItem_string_identifier_keeps_old_fields_witness:
  "(\<exists>r. fst (snd (setItemByDatetimeVal
          (Some [[(''datetime'', JStr ''2025-03-07''), (''temp'', JNum (Finite 15))]])
          (JStr ''2025-03-07'')
          (JObj [(''humidity'', JNum (Finite 80))]))) = Some [r]
        \<and> get_prop r ''temp'' = JNum (Finite 15)
        \<and> get_prop r ''humidity'' = JNum (Finite 80))
   \<and> (\<exists>r. fst (snd (setItemByDatetimeVal
          (Some [[(''datetime'', JStr ''2025-03-07''), (''temp'', JNum (Finite 15))]])
          (JNum (Finite 0))
          (JObj [(''humidity'', JNum (Finite 80))]))) = Some [r]
        \<and> get_prop r ''temp'' = JUndefined
        \<and> get_prop r ''humidity'' = JNum (Finite 80))"
  using setItem_string_identifier_keeps_old_fields by (simp add: get_prop_def)

section \<open>Properties of the accessors\<close>

text \<open>
  C1, as the claim states it, fails: with a day identifier that is neither a string nor a
  number (\<open>false\<close>), \<open>getTempOnDay\<close> and \<open>getTempAtDatetime\<close> return \<open>null\<close> and throw
  nothing; and with a time identifier of that kind, \<open>setTempAtDatetime\<close> on a day that
  is not in the document throws nothing either.
\<close>

theorem getters_swallow_invalid_identifier:
  "getTempOnDay sample_doc (JBool False) = Inr JNull
   \<and> getTempAtDatetime sample_doc (JBool False) (JBool False) = Inr JNull
   \<and> setTempAtDatetime sample_doc (JStr ''1970-01-01'') (JBool False) (JNum (Finite 1))
       = (None, sample_doc)"
  by (simp add: getTempOnDay_def getNumericOnDay_def getTempAtDatetime_def getFieldAtDatetime_def
      setTempAtDatetime_def setFieldAtDatetime_def filterItemByDatetimeVal_def catch_null_def
      get_prop_def sample_doc_def sample_day_def)

text \<open>
  C1, amended. For a day identifier \<open>x\<close> that is neither a string nor a number: every set
  operation, on a day and at a datetime, throws \<open>InvalidIdentifierType\<close> and leaves the
  document as it was; \<open>getDataAtDatetime\<close> and \<open>getDatetimeEpochAtDatetime\<close> throw it too;
  the field getters catch it and return \<open>null\<close>. The same holds for a time identifier
  \<open>x\<close> of that kind once the day identifier has resolved to a day, except that
  \<open>setDataAtDatetime\<close> and \<open>updateDataAtDatetime\<close> throw it only when \<open>data\<close> is an
  object: for any other \<open>data\<close> they throw the data \<open>TypeError\<close> first, and the document
  is unchanged as well. When the day identifier has a valid type and resolves to no day,
  the field setters of the catalog at a datetime return silently with the document
  unchanged, and the time identifier \<open>x\<close> is not looked at.
\<close>

theorem invalid_identifier_type:
  assumes "typeof x \<noteq> ''string''" and "typeof x \<noteq> ''number''"
  shows "setFieldOnDay field w x v = (Some InvalidIdentifierType, w)
       \<and> setFieldAtDatetime field w x t v = (Some InvalidIdentifierType, w)
       \<and> setDatetimeEpochAtDatetime w x t v = (Some InvalidIdentifierType, w)
       \<and> setDataAtDatetime w x t data = (Some InvalidIdentifierType, w, data)
       \<and> updateDataAtDatetime w x t data = (Some InvalidIdentifierType, w, data)
       \<and> getDataAtDatetime w x t = Inl InvalidIdentifierType
       \<and> getDatetimeEpochAtDatetime w x t = Inl InvalidIdentifierType
       \<and> getFieldOnDay field w x = Inr JNull
       \<and> getFieldAtDatetime field w x t = Inr JNull
       \<and> (filterItemByDatetimeVal dprops (days w) d = Inr (Some dayItem) \<longrightarrow>
            setFieldAtDatetime field w d x v = (Some InvalidIdentifierType, w)
          \<and> setDatetimeEpochAtDatetime w d x v = (Some InvalidIdentifierType, w)
          \<and> setDataAtDatetime w d x (JObj ps) = (Some InvalidIdentifierType, w, JObj ps)
          \<and> updateDataAtDatetime w d x (JObj ps) = (Some InvalidIdentifierType, w, JObj ps)
          \<and> setDataAtDatetime w d x data
              = (Some (if typeof data \<noteq> ''object'' \<or> data = JNull then InvalidData
                       else InvalidIdentifierType), w, data)
          \<and> updateDataAtDatetime w d x data
              = (Some (if typeof data \<noteq> ''object'' \<or> data = JNull then InvalidData
                       else InvalidIdentifierType), w, data)
          \<and> getDataAtDatetime w d x = Inl InvalidIdentifierType
          \<and> getDatetimeEpochAtDatetime w d x = Inl InvalidIdentifierType
          \<and> getFieldAtDatetime field w d x = Inr JNull)
       \<and> (filterItemByDatetimeVal dprops (days w) d = Inr None \<longrightarrow>
            setFieldAtDatetime field w d x v = (None, w))"
proof -
  note inv = filter_invalid_type [OF assms]
  have day_set: "setFieldOnDay field w x v = (Some InvalidIdentifierType, w)"
    using assms by (cases x) (simp_all add: setFieldOnDay_def setOnDay_find_def setOnDay_loop_def)
  have day_get: "getFieldOnDay field w x = Inr JNull"
    using assms
    by (cases x) (simp_all add: getFieldOnDay_def getNumericOnDay_def getTextOnDay_def catch_null_def)
  have at_day: "setFieldAtDatetime field w x t v = (Some InvalidIdentifierType, w)"
    "setDatetimeEpochAtDatetime w x t v = (Some InvalidIdentifierType, w)"
    "setDataAtDatetime w x t data = (Some InvalidIdentifierType, w, data)"
    "updateDataAtDatetime w x t data = (Some InvalidIdentifierType, w, data)"
    "getDataAtDatetime w x t = Inl InvalidIdentifierType"
    "getDatetimeEpochAtDatetime w x t = Inl InvalidIdentifierType"
    "getFieldAtDatetime field w x t = Inr JNull"
    by (simp_all add: inv setFieldAtDatetime_def setDatetimeEpochAtDatetime_def
        setDataAtDatetime_def updateDataAtDatetime_def getDataAtDatetime_def
        getDatetimeEpochAtDatetime_def getFieldAtDatetime_def catch_null_def)
  have at_time: "setFieldAtDatetime field w d x v = (Some InvalidIdentifierType, w)
          \<and> setDatetimeEpochAtDatetime w d x v = (Some InvalidIdentifierType, w)
          \<and> setDataAtDatetime w d x (JObj ps) = (Some InvalidIdentifierType, w, JObj ps)
          \<and> updateDataAtDatetime w d x (JObj ps) = (Some InvalidIdentifierType, w, JObj ps)
          \<and> getDataAtDatetime w d x = Inl InvalidIdentifierType
          \<and> getDatetimeEpochAtDatetime w d x = Inl InvalidIdentifierType
          \<and> getFieldAtDatetime field w d x = Inr JNull"
    if found: "filterItemByDatetimeVal dprops (days w) d = Inr (Some dayItem)" for ps
    using found write_back_hours [OF found]
    by (simp add: inv setItem_invalid_type [OF assms] updateItem_invalid_type [OF assms]
        setFieldAtDatetime_def setDatetimeEpochAtDatetime_def
        setDataAtDatetime_def updateDataAtDatetime_def getDataAtDatetime_def
        getDatetimeEpochAtDatetime_def getFieldAtDatetime_def catch_null_def)
  have any_data: "setDataAtDatetime w d x data
              = (Some (if typeof data \<noteq> ''object'' \<or> data = JNull then InvalidData
                       else InvalidIdentifierType), w, data)
          \<and> updateDataAtDatetime w d x data
              = (Some (if typeof data \<noteq> ''object'' \<or> data = JNull then InvalidData
                       else InvalidIdentifierType), w, data)"
    if found: "filterItemByDatetimeVal dprops (days w) d = Inr (Some dayItem)"
  proof (cases "typeof data \<noteq> ''object'' \<or> data = JNull")
    case True
    then have "setItemByDatetimeVal (hours dayItem) x data = (Some InvalidData, hours dayItem, data)"
      "updateItemByDatetimeVal (hours dayItem) x data = (Some InvalidData, hours dayItem, data)"
      by (simp_all add: setItem_not_object updateItem_not_object)
    with True found write_back_hours [OF found] show ?thesis
      by (simp add: setDataAtDatetime_def updateDataAtDatetime_def)
  next
    case False
    then obtain qs where "data = JObj qs" using typeof_object_iff [of data] by blast
    with False at_time [OF found, of qs] show ?thesis by simp
  qed
  have day_absent: "setFieldAtDatetime field w d x v = (None, w)"
    if "filterItemByDatetimeVal dprops (days w) d = Inr None"
    using that by (simp add: setFieldAtDatetime_def)
  from day_set day_get at_day at_time [of ps] any_data day_absent show ?thesis by blast
qed

theorem invalid_identifier_type_witness:
  "setFieldOnDay ''temp'' sample_doc (JBool False) (JNum (Finite 1)) = (Some InvalidIdentifierType, sample_doc)
   \<and> setFieldAtDatetime ''temp'' sample_doc JNull (JStr ''00:00:00'') (JNum (Finite 1))
       = (Some InvalidIdentifierType, sample_doc)
   \<and> getFieldOnDay ''temp'' sample_doc (JBool False) = Inr JNull
   \<and> filterItemByDatetimeVal dprops (days sample_doc) (JStr ''2025-03-07'') = Inr (Some sample_day)
   \<and> setFieldAtDatetime ''temp'' sample_doc (JStr ''2025-03-07'') (JBool False) (JNum (Finite 1))
       = (Some InvalidIdentifierType, sample_doc)
   \<and> setDataAtDatetime sample_doc (JStr ''2025-03-07'') (JBool False) (JObj [])
       = (Some InvalidIdentifierType, sample_doc, JObj [])
   \<and> setDataAtDatetime sample_doc (JStr ''2025-03-07'') (JBool False) JNull
       = (Some InvalidData, sample_doc, JNull)
   \<and> updateDataAtDatetime sample_doc (JStr ''2025-03-07'') (JBool False) (JNum (Finite 3))
       = (Some InvalidData, sample_doc, JNum (Finite 3))
   \<and> filterItemByDatetimeVal dprops (days sample_doc) (JStr ''1970-01-01'') = Inr None
   \<and> setFieldAtDatetime ''temp'' sample_doc (JStr ''1970-01-01'') (JBool False) (JNum (Finite 1))
       = (None, sample_doc)"
proof -
  have b: "typeof (JBool False) \<noteq> ''string''" "typeof (JBool False) \<noteq> ''number''" by simp_all
  have n: "typeof JNull \<noteq> ''string''" "typeof JNull \<noteq> ''number''" by simp_all
  have f: "filterItemByDatetimeVal dprops (days sample_doc) (JStr ''2025-03-07'') = Inr (Some sample_day)"
    by (simp add: filterItemByDatetimeVal_def sample_doc_def sample_day_def get_prop_def)
  have a: "filterItemByDatetimeVal dprops (days sample_doc) (JStr ''1970-01-01'') = Inr None"
    by (simp add: filterItemByDatetimeVal_def sample_doc_def sample_day_def get_prop_def)
  note day = invalid_identifier_type [OF n, where field = "''temp''" and w = sample_doc
      and v = "JNum (Finite 1)" and t = "JStr ''00:00:00''" and data = JNull
      and d = "JStr ''2025-03-07''" and dayItem = sample_day and ps = "[]"]
  note time = invalid_identifier_type [OF b, where field = "''temp''" and w = sample_doc
      and v = "JNum (Finite 1)" and t = "JStr ''00:00:00''" and data = JNull
      and d = "JStr ''2025-03-07''" and dayItem = sample_day and ps = "[]"]
  note time' = invalid_identifier_type [OF b, where field = "''temp''" and w = sample_doc
      and v = "JNum (Finite 1)" and t = "JStr ''00:00:00''" and data = "JNum (Finite 3)"
      and d = "JStr ''2025-03-07''" and dayItem = sample_day and ps = "[]"]
  note absent = invalid_identifier_type [OF b, where field = "''temp''" and w = sample_doc
      and v = "JNum (Finite 1)" and t = "JStr ''00:00:00''" and data = JNull
      and d = "JStr ''1970-01-01''" and dayItem = sample_day and ps = "[]"]
  have 1: "setFieldOnDay ''temp'' sample_doc (JBool False) (JNum (Finite 1)) = (Some InvalidIdentifierType, sample_doc)"
    "getFieldOnDay ''temp'' sample_doc (JBool False) = Inr JNull"
    using time by blast+
  have 2: "setFieldAtDatetime ''temp'' sample_doc JNull (JStr ''00:00:00'') (JNum (Finite 1))
       = (Some InvalidIdentifierType, sample_doc)"
    using day by blast
  have 3: "setFieldAtDatetime ''temp'' sample_doc (JStr ''2025-03-07'') (JBool False) (JNum (Finite 1))
       = (Some InvalidIdentifierType, sample_doc)"
    "setDataAtDatetime sample_doc (JStr ''2025-03-07'') (JBool False) (JObj [])
       = (Some InvalidIdentifierType, sample_doc, JObj [])"
    using time f by blast+
  have 4: "setDataAtDatetime sample_doc (JStr ''2025-03-07'') (JBool False) JNull
       = (Some InvalidData, sample_doc, JNull)"
    using time f by simp
  have 5: "updateDataAtDatetime sample_doc (JStr ''2025-03-07'') (JBool False) (JNum (Finite 3))
       = (Some InvalidData, sample_doc, JNum (Finite 3))"
    using time' f by simp
  have 6: "setFieldAtDatetime ''temp'' sample_doc (JStr ''1970-01-01'') (JBool False) (JNum (Finite 1))
       = (None, sample_doc)"
    using absent a by blast
  from 1 2 3 4 5 6 f a show ?thesis by blast
qed

text \<open>
  C2, as the claim states it, fails. A time identifier of invalid type does not make
  \<open>setTempAtDatetime\<close> fail when the day is not in the document (the guard
  \<open>dayItem &&\<close> ends the call first). And a resolution that finds nothing is not always a
  silent no-op: \<open>setTempAtDatetime\<close> throws when the day is there and the hour is not,
  \<open>setDataAtDatetime\<close> throws when the day is not there.
\<close>

theorem set_at_datetime_absent_counterexample:
  "setTempAtDatetime sample_doc (JStr ''1970-01-01'') (JBool False) (JNum (Finite 1))
     = (None, sample_doc)
   \<and> setTempAtDatetime sample_doc (JStr ''2025-03-07'') (JStr ''24:00:00'') (JNum (Finite 1))
     = (Some NativeTypeError, sample_doc)
   \<and> setDataAtDatetime sample_doc (JStr ''1970-01-01'') (JStr ''00:00:00'') (JObj [])
     = (Some NativeTypeError, sample_doc, JObj [])"
  by (simp add: setTempAtDatetime_def setFieldAtDatetime_def setDataAtDatetime_def
      filterItemByDatetimeVal_def get_prop_def sample_doc_def sample_day_def)

text \<open>
  C2, amended. A field setter at a datetime (\<open>setTempAtDatetime\<close>, ...) fails with
  \<open>InvalidIdentifierType\<close> when the day identifier is of invalid type, and when the day
  identifier resolves to a day and the time identifier is of invalid type; when the day
  identifier has a valid type and resolves to no day it is a silent no-op, whatever the
  time identifier. \<open>setDataAtDatetime\<close> and \<open>updateDataAtDatetime\<close> with an object fail in
  the same two cases, and are a silent no-op when the day resolves and the time identifier
  resolves to no hour of it. In every one of these cases the document is unchanged.
\<close>

theorem set_at_datetime_by_design:
  "(typeof d \<noteq> ''string'' \<and> typeof d \<noteq> ''number'' \<longrightarrow>
      setFieldAtDatetime field w d t v = (Some InvalidIdentifierType, w)
    \<and> setDataAtDatetime w d t (JObj ps) = (Some InvalidIdentifierType, w, JObj ps)
    \<and> updateDataAtDatetime w d t (JObj ps) = (Some InvalidIdentifierType, w, JObj ps))
   \<and> (filterItemByDatetimeVal dprops (days w) d = Inr None \<longrightarrow>
      setFieldAtDatetime field w d t v = (None, w))
   \<and> (filterItemByDatetimeVal dprops (days w) d = Inr (Some dayItem)
        \<and> typeof t \<noteq> ''string'' \<and> typeof t \<noteq> ''number'' \<longrightarrow>
      setFieldAtDatetime field w d t v = (Some InvalidIdentifierType, w)
    \<and> setDataAtDatetime w d t (JObj ps) = (Some InvalidIdentifierType, w, JObj ps)
    \<and> updateDataAtDatetime w d t (JObj ps) = (Some InvalidIdentifierType, w, JObj ps))
   \<and> (filterItemByDatetimeVal dprops (days w) d = Inr (Some dayItem)
        \<and> filterItemByDatetimeVal (\<lambda>x. x) (hours dayItem) t = Inr None \<longrightarrow>
      setDataAtDatetime w d t (JObj ps) = (None, w, JObj ps)
    \<and> updateDataAtDatetime w d t (JObj ps) = (None, w, JObj ps))"
proof -
  have day_invalid: "setFieldAtDatetime field w d t v = (Some InvalidIdentifierType, w)
    \<and> setDataAtDatetime w d t (JObj ps) = (Some InvalidIdentifierType, w, JObj ps)
    \<and> updateDataAtDatetime w d t (JObj ps) = (Some InvalidIdentifierType, w, JObj ps)"
    if "typeof d \<noteq> ''string''" "typeof d \<noteq> ''number''"
    by (simp add: filter_invalid_type [OF that] setFieldAtDatetime_def setDataAtDatetime_def
        updateDataAtDatetime_def)
  have day_absent: "setFieldAtDatetime field w d t v = (None, w)"
    if "filterItemByDatetimeVal dprops (days w) d = Inr None"
    using that by (simp add: setFieldAtDatetime_def)
  have time_invalid: "setFieldAtDatetime field w d t v = (Some InvalidIdentifierType, w)
    \<and> setDataAtDatetime w d t (JObj ps) = (Some InvalidIdentifierType, w, JObj ps)
    \<and> updateDataAtDatetime w d t (JObj ps) = (Some InvalidIdentifierType, w, JObj ps)"
    if found: "filterItemByDatetimeVal dprops (days w) d = Inr (Some dayItem)"
      and ty: "typeof t \<noteq> ''string''" "typeof t \<noteq> ''number''"
    using found write_back_hours [OF found]
    by (simp add: filter_invalid_type [OF ty] setItem_invalid_type [OF ty]
        updateItem_invalid_type [OF ty] setFieldAtDatetime_def setDataAtDatetime_def
        updateDataAtDatetime_def)
  have hour_absent: "setDataAtDatetime w d t (JObj ps) = (None, w, JObj ps)
    \<and> updateDataAtDatetime w d t (JObj ps) = (None, w, JObj ps)"
    if found: "filterItemByDatetimeVal dprops (days w) d = Inr (Some dayItem)"
      and none: "filterItemByDatetimeVal (\<lambda>x. x) (hours dayItem) t = Inr None"
  proof -
    from filter_found_days [OF none] obtain hs where hs: "hours dayItem = Some hs" by blast
    have "setItemByDatetimeVal (Some hs) t (JObj ps) = (None, Some hs, JObj ps)
        \<and> updateItemByDatetimeVal (Some hs) t (JObj ps) = (None, Some hs, JObj ps)"
      using none hs
      by (cases t)
        (simp_all add: filterItemByDatetimeVal_def setItemByDatetimeVal_def
          updateItemByDatetimeVal_def update_first_none elem_at_none)
    with found hs write_back_hours [OF found] show ?thesis
      by (simp add: setDataAtDatetime_def updateDataAtDatetime_def)
  qed
  from day_invalid day_absent time_invalid hour_absent show ?thesis by blast
qed

theorem set_at_datetime_by_design_witness:
  "setFieldAtDatetime ''temp'' sample_doc JNull (JStr ''00:00:00'') (JNum (Finite 1))
     = (Some InvalidIdentifierType, sample_doc)
   \<and> filterItemByDatetimeVal dprops (days sample_doc) (JStr ''1970-01-01'') = Inr None
   \<and> setFieldAtDatetime ''temp'' sample_doc (JStr ''1970-01-01'') (JStr ''00:00:00'') (JNum (Finite 1))
     = (None, sample_doc)
   \<and> filterItemByDatetimeVal dprops (days sample_doc) (JNum (Finite 0)) = Inr (Some sample_day)
   \<and> setFieldAtDatetime ''temp'' sample_doc (JNum (Finite 0)) JNull (JNum (Finite 1))
     = (Some InvalidIdentifierType, sample_doc)
   \<and> filterItemByDatetimeVal (\<lambda>x. x) (hours sample_day) (JNum (Finite 7)) = Inr None
   \<and> setDataAtDatetime sample_doc (JNum (Finite 0)) (JNum (Finite 7)) (JObj [(''temp'', JNum (Finite 1))])
     = (None, sample_doc, JObj [(''temp'', JNum (Finite 1))])"
proof -
  have n: "typeof JNull \<noteq> ''string'' \<and> typeof JNull \<noteq> ''number''" by simp
  have a: "filterItemByDatetimeVal dprops (days sample_doc) (JStr ''1970-01-01'') = Inr None"
    by (simp add: filterItemByDatetimeVal_def sample_doc_def sample_day_def get_prop_def)
  have f: "filterItemByDatetimeVal dprops (days sample_doc) (JNum (Finite 0)) = Inr (Some sample_day)"
    by (simp add: filterItemByDatetimeVal_def sample_doc_def elem_at_def elem_index_def)
  have h: "filterItemByDatetimeVal (\<lambda>x. x) (hours sample_day) (JNum (Finite 7)) = Inr None"
    by (simp add: filterItemByDatetimeVal_def sample_day_def elem_at_def elem_index_def)
  from set_at_datetime_by_design [of JNull "''temp''" sample_doc "JStr ''00:00:00''" "JNum (Finite 1)" "[]" sample_day]
    n have 1: "setFieldAtDatetime ''temp'' sample_doc JNull (JStr ''00:00:00'') (JNum (Finite 1))
     = (Some InvalidIdentifierType, sample_doc)" by blast
  from set_at_datetime_by_design [of "JStr ''1970-01-01''" "''temp''" sample_doc "JStr ''00:00:00''" "JNum (Finite 1)" "[]" sample_day]
    a have 2: "setFieldAtDatetime ''temp'' sample_doc (JStr ''1970-01-01'') (JStr ''00:00:00'') (JNum (Finite 1))
     = (None, sample_doc)" by blast
  from set_at_datetime_by_design [of "JNum (Finite 0)" "''temp''" sample_doc JNull "JNum (Finite 1)" "[]" sample_day]
    n f have 3: "setFieldAtDatetime ''temp'' sample_doc (JNum (Finite 0)) JNull (JNum (Finite 1))
     = (Some InvalidIdentifierType, sample_doc)" by blast
  from set_at_datetime_by_design [of "JNum (Finite 0)" "''temp''" sample_doc "JNum (Finite 7)" "JNum (Finite 1)"
      "[(''temp'', JNum (Finite 1))]" sample_day]
    f h have 4: "setDataAtDatetime sample_doc (JNum (Finite 0)) (JNum (Finite 7)) (JObj [(''temp'', JNum (Finite 1))])
     = (None, sample_doc, JObj [(''temp'', JNum (Finite 1))])" by blast
  from 1 2 3 4 a f h show ?thesis by blast
qed

text \<open>
  C3. On the sample document, whose only day is \<open>2025-03-07\<close>, a read at the day
  \<open>"1970-01-01"\<close> (a string, matching no day): \<open>getDataAtDatetime\<close> and
  \<open>getDatetimeEpochAtDatetime\<close> read \<open>hours\<close> of the \<open>null\<close> that the first resolution
  returned and throw; the field getter \<open>getTempAtDatetime\<close>, which tests \<open>dayItem\<close>
  first, returns \<open>null\<close>.
\<close>

theorem getDataAtDatetime_absent_day_throws:
  "filterItemByDatetimeVal dprops (days sample_doc) (JStr ''1970-01-01'') = Inr None
   \<and> getDataAtDatetime sample_doc (JStr ''1970-01-01'') (JStr ''00:00:00'') = Inl NativeTypeError
   \<and> getDatetimeEpochAtDatetime sample_doc (JStr ''1970-01-01'') (JStr ''00:00:00'') = Inl NativeTypeError
   \<and> getTempAtDatetime sample_doc (JStr ''1970-01-01'') (JStr ''00:00:00'') = Inr JNull"
  by (simp add: getDataAtDatetime_def getDatetimeEpochAtDatetime_def getTempAtDatetime_def
      getFieldAtDatetime_def catch_null_def filterItemByDatetimeVal_def get_prop_def
      sample_doc_def sample_day_def)

theorem getDataAtDatetime_absent_day_throws_witness:
  "getDataAtDatetime sample_doc (JStr ''1970-01-01'') (JStr ''00:00:00'') \<noteq> Inr JNull
   \<and> getTempAtDatetime sample_doc (JStr ''1970-01-01'') (JStr ''00:00:00'') = Inr JNull"
  using getDataAtDatetime_absent_day_throws by simp

text \<open>
  C4, as the claim states it, fails for the empty string: after
  \<open>setTempOnDay(0, "")\<close> the getter \<open>getTempOnDay(0)\<close> returns \<open>null\<close>; and for \<open>0\<close> on a
  field whose getter has no zero test: after \<open>setSunriseOnDay(0, 0)\<close> the getter returns
  \<open>null\<close>.
\<close>

theorem set_then_get_empty_string_counterexample:
  "fst (setTempOnDay sample_doc (JNum (Finite 0)) (JStr [])) = None
   \<and> getTempOnDay (snd (setTempOnDay sample_doc (JNum (Finite 0)) (JStr []))) (JNum (Finite 0))
       = Inr JNull
   \<and> fst (setFieldOnDay ''sunrise'' sample_doc (JNum (Finite 0)) (JNum (Finite 0))) = None
   \<and> getFieldOnDay ''sunrise''
        (snd (setFieldOnDay ''sunrise'' sample_doc (JNum (Finite 0)) (JNum (Finite 0))))
        (JNum (Finite 0))
       = Inr JNull"
  by (simp add: setTempOnDay_def setOnDay_find_def getTempOnDay_def getNumericOnDay_def
      setFieldOnDay_def setOnDay_loop_def getFieldOnDay_def getTextOnDay_def
      numeric_day_fields_def write_through_def elem_at_def elem_index_def catch_null_def
      opt_chain_def js_or_def get_prop_def put_def sample_doc_def sample_day_def)

text \<open>
  C4, amended. For a field of the day catalog and a day identifier that resolves to a day,
  set followed by get returns exactly \<open>v\<close> when \<open>v\<close> is truthy, \<open>null\<close> when \<open>v\<close> is
  \<open>null\<close>, and \<open>0\<close> when \<open>v\<close> is \<open>0\<close> and the field is one of the 27 whose getter has the
  zero test; every other falsy \<open>v\<close> (the empty string, \<open>false\<close>, \<open>NaN\<close>, \<open>undefined\<close>, and
  \<open>0\<close> on the six other fields) is read back as \<open>null\<close>.
\<close>

theorem set_then_get_on_day:
  assumes "field \<in> set numeric_day_fields \<union> set text_day_fields"
      and "filterItemByDatetimeVal dprops (days w) d = Inr (Some day)"
  shows "\<exists>w'. setFieldOnDay field w d v = (None, w')
        \<and> getFieldOnDay field w' d =
            Inr (if truthy v then v
                 else if v = JNum (Finite 0) \<and> field \<in> set numeric_day_fields then v
                 else JNull)"
proof -
  from filter_found_days [OF assms(2)] obtain ds where ds: "days w = Some ds" by blast
  let ?upd = "\<lambda>day. day\<lparr>dprops := put (dprops day) field v\<rparr>"
  let ?w' = "w\<lparr>days := Some (write_through dprops ds d ?upd)\<rparr>"
  have set: "setFieldOnDay field w d v = (None, ?w')"
    by (rule setFieldOnDay_found [OF assms(2) ds])
  have "get_prop (dprops (?upd day)) ''datetime'' = get_prop (dprops day) ''datetime''"
    using day_fields_not_datetime [OF assms(1)] by (simp add: get_prop_put_other)
  from filter_after_write [of dprops ds d day ?upd, OF _ this] assms(2) ds
  have "filterItemByDatetimeVal dprops (days ?w') d = Inr (Some (?upd day))" by simp
  from getFieldOnDay_found [OF this, of field]
  have "getFieldOnDay field ?w' d =
            Inr (if truthy v then v
                 else if v = JNum (Finite 0) \<and> field \<in> set numeric_day_fields then v
                 else JNull)"
    by (simp add: get_prop_put_same Let_def)
  with set show ?thesis by blast
qed

theorem set_then_get_on_day_witness:
  "''temp'' \<in> set numeric_day_fields \<union> set text_day_fields
   \<and> filterItemByDatetimeVal dprops (days sample_doc) (JStr ''2025-03-07'') = Inr (Some sample_day)
   \<and> (\<exists>w'. setFieldOnDay ''temp'' sample_doc (JStr ''2025-03-07'') (JNum (Finite 0)) = (None, w')
           \<and> getFieldOnDay ''temp'' w' (JStr ''2025-03-07'') = Inr (JNum (Finite 0)))"
proof -
  have m: "''temp'' \<in> set numeric_day_fields \<union> set text_day_fields"
    by (simp add: numeric_day_fields_def)
  have f: "filterItemByDatetimeVal dprops (days sample_doc) (JStr ''2025-03-07'') = Inr (Some sample_day)"
    by (simp add: filterItemByDatetimeVal_def sample_doc_def sample_day_def get_prop_def)
  from set_then_get_on_day [OF m f, of "JNum (Finite 0)"] m f show ?thesis
    by (simp add: numeric_day_fields_def)
qed

text \<open>
  C8, as the claim states it, fails for \<open>queryCost\<close>: after \<open>setQueryCost(0)\<close> the getter
  \<open>getQueryCost()\<close> returns \<open>null\<close>.
\<close>

theorem getQueryCost_zero_counterexample:
  "get_prop (wprops (setQueryCost sample_doc (JNum (Finite 0)))) ''queryCost'' = JNum (Finite 0)
   \<and> getQueryCost (setQueryCost sample_doc (JNum (Finite 0))) = JNull"
  by (simp add: getQueryCost_def setQueryCost_def js_or_def get_prop_def put_def sample_doc_def)

text \<open>
  C8, amended. For \<open>latitude\<close>, \<open>longitude\<close> and \<open>tzoffset\<close> a present value of \<open>0\<close> is
  returned as \<open>0\<close> by the get accessor. \<open>getQueryCost\<close> returns a truthy cost as it is and
  returns \<open>null\<close> when \<open>queryCost\<close> holds \<open>0\<close>.
\<close>

theorem zero_of_top_level_fields:
  "(get_prop (wprops w) ''latitude'' = JNum (Finite 0) \<longrightarrow> getLatitude w = JNum (Finite 0))
   \<and> (get_prop (wprops w) ''longitude'' = JNum (Finite 0) \<longrightarrow> getLongitude w = JNum (Finite 0))
   \<and> (get_prop (wprops w) ''tzoffset'' = JNum (Finite 0) \<longrightarrow> getTzoffset w = JNum (Finite 0))
   \<and> getTzoffset (setTzoffset w (JNum (Finite 0))) = JNum (Finite 0)
   \<and> (get_prop (wprops w) ''queryCost'' = JNum (Finite 0) \<longrightarrow> getQueryCost w = JNull)
   \<and> getQueryCost (setQueryCost w (JNum (Finite 0))) = JNull
   \<and> (truthy v \<longrightarrow> getQueryCost (setQueryCost w v) = v)"
  by (simp add: getLatitude_def getLongitude_def getTzoffset_def setTzoffset_def getQueryCost_def
      setQueryCost_def js_or_def get_prop_put_same)

theorem zero_of_top_level_fields_witness:
  "getLatitude \<lparr>wprops = [(''latitude'', JNum (Finite 0)), (''longitude'', JNum (Finite 0)),
                          (''tzoffset'', JNum (Finite 0)), (''queryCost'', JNum (Finite 0))],
                days = None\<rparr> = JNum (Finite 0)
   \<and> getLongitude \<lparr>wprops = [(''latitude'', JNum (Finite 0)), (''longitude'', JNum (Finite 0)),
                          (''tzoffset'', JNum (Finite 0)), (''queryCost'', JNum (Finite 0))],
                days = None\<rparr> = JNum (Finite 0)
   \<and> getTzoffset \<lparr>wprops = [(''latitude'', JNum (Finite 0)), (''longitude'', JNum (Finite 0)),
                          (''tzoffset'', JNum (Finite 0)), (''queryCost'', JNum (Finite 0))],
                days = None\<rparr> = JNum (Finite 0)
   \<and> getQueryCost \<lparr>wprops = [(''latitude'', JNum (Finite 0)), (''longitude'', JNum (Finite 0)),
                          (''tzoffset'', JNum (Finite 0)), (''queryCost'', JNum (Finite 0))],
                days = None\<rparr> = JNull
   \<and> getQueryCost (setQueryCost sample_doc (JNum (Finite 1))) = JNum (Finite 1)"
proof -
  let ?w = "\<lparr>wprops = [(''latitude'', JNum (Finite 0)), (''longitude'', JNum (Finite 0)),
                          (''tzoffset'', JNum (Finite 0)), (''queryCost'', JNum (Finite 0))],
                days = None\<rparr>"
  have g: "get_prop (wprops ?w) ''latitude'' = JNum (Finite 0)"
    "get_prop (wprops ?w) ''longitude'' = JNum (Finite 0)"
    "get_prop (wprops ?w) ''tzoffset'' = JNum (Finite 0)"
    "get_prop (wprops ?w) ''queryCost'' = JNum (Finite 0)"
    by (simp_all add: get_prop_def)
  have t: "truthy (JNum (Finite 1))" by simp
  from zero_of_top_level_fields [of ?w "JNum (Finite 1)"] g
  have "getLatitude ?w = JNum (Finite 0) \<and> getLongitude ?w = JNum (Finite 0)
      \<and> getTzoffset ?w = JNum (Finite 0) \<and> getQueryCost ?w = JNull" by blast
  moreover from zero_of_top_level_fields [of sample_doc "JNum (Finite 1)"] t
  have "getQueryCost (setQueryCost sample_doc (JNum (Finite 1))) = JNum (Finite 1)" by blast
  ultimately show ?thesis by blast
qed

section \<open>Properties of the validation\<close>

text \<open>
  C7. \<open>validateParamDate\<close> returns its input unchanged for every string that is a date
  expression of the specification and for every number; it fails with \<open>InvalidFormat\<close> for
  every other string and with \<open>InvalidType\<close> for every value that is neither a string nor
  a number. The date expressions are: the nine keywords \<open>today\<close>, \<open>tomorrow\<close>,
  \<open>yesterday\<close>, \<open>yeartodate\<close>, \<open>monthtodate\<close>, \<open>lastyear\<close>, \<open>last24hours\<close>,
  \<open>nextweekend\<close>, \<open>lastweekend\<close>; \<open>next<N>days\<close> and \<open>last<N>days\<close> with \<open>N\<close> a non-empty
  string of decimal digits; \<open>next\<close> or \<open>last\<close> followed by one of the seven lower-case
  weekday names; and the two calendar forms read as layouts of digits, \<open>YYYY-MM-DD\<close> and
  \<open>YYYY-MM-DDTHH:MM:SS\<close> with one decimal digit for each letter, whatever number the
  digits spell (\<open>9999-99-99\<close> is accepted).
\<close>

theorem validateParamDate_accepts_exactly:
  "validateParamDate v =
     (case v of
        JStr s \<Rightarrow> if date_expression s then Inr v else Inl InvalidFormat
      | JNum n \<Rightarrow> Inr v
      | _ \<Rightarrow> Inl InvalidType)"
proof (cases v)
  case (JStr s)
  from accepted_string [of s] show ?thesis
    unfolding JStr validateParamDate_def by auto
qed (simp_all add: validateParamDate_def)

theorem validateParamDate_accepts_exactly_witness:
  "date_expression ''today''
   \<and> validateParamDate (JStr ''today'') = Inr (JStr ''today'')
   \<and> date_expression ''lastweekend''
   \<and> validateParamDate (JStr ''lastweekend'') = Inr (JStr ''lastweekend'')
   \<and> date_expression ''next10days''
   \<and> validateParamDate (JStr ''next10days'') = Inr (JStr ''next10days'')
   \<and> date_expression ''lastsaturday''
   \<and> validateParamDate (JStr ''lastsaturday'') = Inr (JStr ''lastsaturday'')
   \<and> date_expression ''9999-99-99''
   \<and> validateParamDate (JStr ''9999-99-99'') = Inr (JStr ''9999-99-99'')
   \<and> date_expression ''2024-03-07T04:30:00''
   \<and> validateParamDate (JStr ''2024-03-07T04:30:00'') = Inr (JStr ''2024-03-07T04:30:00'')
   \<and> \<not> date_expression ''TODAY''
   \<and> validateParamDate (JStr ''TODAY'') = Inl InvalidFormat
   \<and> \<not> date_expression ''25-03-07''
   \<and> validateParamDate (JStr ''25-03-07'') = Inl InvalidFormat
   \<and> validateParamDate (JNum (Finite 1741305600000)) = Inr (JNum (Finite 1741305600000))
   \<and> validateParamDate (JBool False) = Inl InvalidType"
proof -
  have k1: "date_expression ''today''" "date_expression ''lastweekend''"
    by (simp_all add: date_expression_def keyword_vocabulary_def)
  have e1: "validateParamDate (JStr ''next10days'') = Inr (JStr ''next10days'')"
    by code_simp
  have e2: "validateParamDate (JStr ''lastsaturday'') = Inr (JStr ''lastsaturday'')"
    by code_simp
  have e3: "validateParamDate (JStr ''2024-03-07T04:30:00'') = Inr (JStr ''2024-03-07T04:30:00'')"
    by code_simp
  have e4: "validateParamDate (JStr ''25-03-07'') = Inl InvalidFormat"
    by code_simp
  have e5: "validateParamDate (JStr ''TODAY'') = Inl InvalidFormat"
    by code_simp
  have e6: "validateParamDate (JStr ''9999-99-99'') = Inr (JStr ''9999-99-99'')"
    by code_simp
  from validateParamDate_accepts_exactly [of "JStr ''today''"] k1(1)
  have t1: "validateParamDate (JStr ''today'') = Inr (JStr ''today'')" by simp
  from validateParamDate_accepts_exactly [of "JStr ''lastweekend''"] k1(2)
  have t2: "validateParamDate (JStr ''lastweekend'') = Inr (JStr ''lastweekend'')" by simp
  from validateParamDate_accepts_exactly [of "JStr ''next10days''"] e1
  have d1: "date_expression ''next10days''" by (simp split: if_splits)
  from validateParamDate_accepts_exactly [of "JStr ''lastsaturday''"] e2
  have d2: "date_expression ''lastsaturday''" by (simp split: if_splits)
  from validateParamDate_accepts_exactly [of "JStr ''2024-03-07T04:30:00''"] e3
  have d3: "date_expression ''2024-03-07T04:30:00''" by (simp split: if_splits)
  from validateParamDate_accepts_exactly [of "JStr ''25-03-07''"] e4
  have d4: "\<not> date_expression ''25-03-07''" by (simp split: if_splits)
  from validateParamDate_accepts_exactly [of "JStr ''TODAY''"] e5
  have d5: "\<not> date_expression ''TODAY''" by (simp split: if_splits)
  from validateParamDate_accepts_exactly [of "JStr ''9999-99-99''"] e6
  have d6: "date_expression ''9999-99-99''" by (simp split: if_splits)
  from validateParamDate_accepts_exactly [of "JNum (Finite 1741305600000)"]
  have n: "validateParamDate (JNum (Finite 1741305600000)) = Inr (JNum (Finite 1741305600000))"
    by simp
  from validateParamDate_accepts_exactly [of "JBool False"]
  have b: "validateParamDate (JBool False) = Inl InvalidType" by simp
  from k1 t1 t2 e1 e2 e3 e4 e5 e6 d1 d2 d3 d4 d5 d6 n b show ?thesis by blast
qed

end
